theory Spec2Isabelle
  imports Main
begin

section \<open>The unified MCP connection manager\<close>

text \<open>
  A shallow embedding of \<^verbatim>\<open>app/services/unified_mcp_manager.py\<close>
  (class \<^verbatim>\<open>UnifiedMCPManager\<close> and the module-level request cache).

  Conventions of the embedding:
  \<^item> a tenant's UUID is the string \<^verbatim>\<open>str(tenant_id)\<close>;
  \<^item> a \<^verbatim>\<open>datetime\<close> is an integer number of microseconds (the resolution of
    Python's \<^verbatim>\<open>datetime\<close>), a \<^verbatim>\<open>timedelta\<close> likewise; one call reads the
    clock as the single instant \<open>now\<close>;
  \<^item> the coroutines are run one after the other, so a tenant's lock is always free
    when it is awaited: \<^verbatim>\<open>_get_tenant_lock\<close> only creates the lock;
  \<^item> every call of \<^verbatim>\<open>get_global_mcp\<close> and \<^verbatim>\<open>clear_request_mcp_cache\<close> names the
    asyncio context it runs in, since the value of a \<^verbatim>\<open>ContextVar\<close> is looked up
    and set in the context of the calling task;
  \<^item> the answers of the collaborators are parameters of a call: what the credential
    store returns (or raises) if it is queried, and whether entering the MCP session
    succeeds or raises;
  \<^item> printing is left out.
\<close>

subsection \<open>Data\<close>

type_synonym uuid = string
type_synonym datetime = int
type_synonym timedelta = int

text \<open>An asyncio context: every task runs in one, a copy of its creator's.\<close>

type_synonym task_context = nat

text \<open>The exceptions the code distinguishes; \<open>Exception\<close> stands for any other
  subclass of Python's \<^verbatim>\<open>Exception\<close>, with its message.\<close>

datatype exc = TimeoutError | CancelledError | ClosedResourceError | AssertionError
  | Exception string

text \<open>The dictionary returned by \<^verbatim>\<open>get_quickbooks_credentials\<close>.\<close>

record qb_creds =
  access_token :: string
  realm_id :: string

text \<open>The dictionary built by \<^verbatim>\<open>_get_google_sheets_credentials\<close> from the active
  \<^verbatim>\<open>GoogleSheetsConnection\<close> row of the tenant.\<close>

record sheets_creds =
  refresh_token :: string
  inventory_workbook_id :: "string option"
  inventory_worksheet_name :: "string option"
  orders_workbook_id :: "string option"
  orders_worksheet_name :: "string option"

text \<open>The two URLs read from \<^verbatim>\<open>app.core.config.settings\<close>.\<close>

record settings =
  accounts_mcp_server :: string
  global_mcp_server :: string

text \<open>An \<^verbatim>\<open>MCPServerStreamableHttp\<close> object. \<open>obj_id\<close> is the identity of the Python
  object: two objects are the same object exactly when their identities agree.\<close>

record mcp_server =
  obj_id :: nat
  name :: string
  url :: string
  headers :: "(string \<times> string) list"
  timeout :: nat
  sse_read_timeout :: nat
  client_session_timeout_seconds :: nat
  max_retry_attempts :: nat

text \<open>
  The fields of the manager, followed by the state the manager works on without owning
  it. The module-level \<^verbatim>\<open>ContextVar\<close> \<^verbatim>\<open>_request_global_mcp\<close> binds, in each
  context where it has been set, a dictionary object: \<open>request_global_mcp\<close> is that
  binding (the reference of the dictionary), \<open>request_dicts\<close> holds the dictionaries by
  reference (an association list each, in insertion order) and \<open>dicts\<close> counts the
  dictionaries created so far. Where the variable is not set its value is the default, an
  empty dictionary, which the code never writes to. Then come the number of server
  objects constructed so far, the server objects whose session the manager tried to enter
  (each is one open call to the client), the sessions the exit stack has closed, and the
  queries sent to the credential store.
\<close>

record manager =
  exit_stack :: "mcp_server list option"
  tenant_connections :: "uuid \<rightharpoonup> (string \<rightharpoonup> mcp_server)"
  tenant_tokens :: "uuid \<rightharpoonup> string"
  connection_created_at :: "uuid \<rightharpoonup> (string \<rightharpoonup> datetime)"
  failed_connections :: "uuid \<rightharpoonup> (string \<rightharpoonup> datetime)"
  locks :: "uuid set"
  quickbooks_creds_cache :: "uuid \<rightharpoonup> qb_creds option"
  sheets_creds_cache :: "uuid \<rightharpoonup> sheets_creds option"
  creds_cache_timestamps :: "uuid \<rightharpoonup> (string \<rightharpoonup> datetime)"
  request_global_mcp :: "task_context \<rightharpoonup> nat"
  request_dicts :: "nat \<Rightarrow> (uuid \<times> mcp_server) list"
  dicts :: nat
  objects :: nat
  opens :: "mcp_server list"
  closed :: "mcp_server list"
  store_calls :: "(string \<times> uuid) list"

definition failed_connection_ttl :: timedelta where
  "failed_connection_ttl = 30 * 1000000"

definition max_connection_age :: timedelta where
  "max_connection_age = 30 * 60 * 1000000"

definition creds_cache_ttl :: timedelta where
  "creds_cache_ttl = 5 * 60 * 1000000"

text \<open>\<^verbatim>\<open>__init__\<close>, in a process that has made no request yet.\<close>

definition init :: manager where
  "init = \<lparr>exit_stack = None, tenant_connections = Map.empty, tenant_tokens = Map.empty,
     connection_created_at = Map.empty, failed_connections = Map.empty, locks = {},
     quickbooks_creds_cache = Map.empty, sheets_creds_cache = Map.empty,
     creds_cache_timestamps = Map.empty, request_global_mcp = Map.empty,
     request_dicts = (\<lambda>ref. []), dicts = 0,
     objects = 0, opens = [], closed = [], store_calls = []\<rparr>"

subsection \<open>Dictionaries of dictionaries\<close>

text \<open>\<^verbatim>\<open>k1 in m and k2 in m[k1]\<close>, then \<^verbatim>\<open>m[k1][k2]\<close>.\<close>

definition get_inner :: "('a \<rightharpoonup> ('b \<rightharpoonup> 'c)) \<Rightarrow> 'a \<Rightarrow> 'b \<Rightarrow> 'c option" where
  "get_inner m k1 k2 = (case m k1 of None \<Rightarrow> None | Some d \<Rightarrow> d k2)"

text \<open>\<^verbatim>\<open>if k1 not in m: m[k1] = {}\<close>, then \<^verbatim>\<open>m[k1][k2] = v\<close>.\<close>

definition set_inner :: "('a \<rightharpoonup> ('b \<rightharpoonup> 'c)) \<Rightarrow> 'a \<Rightarrow> 'b \<Rightarrow> 'c \<Rightarrow> ('a \<rightharpoonup> ('b \<rightharpoonup> 'c))" where
  "set_inner m k1 k2 v = m(k1 \<mapsto> (case m k1 of None \<Rightarrow> Map.empty | Some d \<Rightarrow> d)(k2 \<mapsto> v))"

text \<open>\<^verbatim>\<open>if k1 in m: m[k1].pop(k2, None)\<close>.\<close>

definition pop_inner :: "('a \<rightharpoonup> ('b \<rightharpoonup> 'c)) \<Rightarrow> 'a \<Rightarrow> 'b \<Rightarrow> ('a \<rightharpoonup> ('b \<rightharpoonup> 'c))" where
  "pop_inner m k1 k2 = (case m k1 of None \<Rightarrow> m | Some d \<Rightarrow> m(k1 \<mapsto> d(k2 := None)))"

subsection \<open>The request-scoped cache\<close>

text \<open>\<^verbatim>\<open>d[k] = v\<close> on a dictionary kept as an association list: the value of an
  existing key is replaced in place, a new key is added at the end.\<close>

fun dict_set :: "'k \<Rightarrow> 'v \<Rightarrow> ('k \<times> 'v) list \<Rightarrow> ('k \<times> 'v) list" where
  "dict_set k v [] = [(k, v)]"
| "dict_set k v ((k', v') # d) = (if k' = k then (k, v) # d else (k', v') # dict_set k v d)"

text \<open>\<^verbatim>\<open>_request_global_mcp.get()\<close> in the context \<open>ctx\<close>.\<close>

definition request_global_mcp_get :: "manager \<Rightarrow> task_context \<Rightarrow> (uuid \<times> mcp_server) list" where
  "request_global_mcp_get s ctx =
     (case request_global_mcp s ctx of None \<Rightarrow> [] | Some ref \<Rightarrow> request_dicts s ref)"

text \<open>\<^verbatim>\<open>request_cache[tenant_id]\<close> when \<^verbatim>\<open>tenant_id in request_cache\<close>, for the
  dictionary \<^verbatim>\<open>request_cache = _request_global_mcp.get()\<close>.\<close>

definition request_cached :: "manager \<Rightarrow> task_context \<Rightarrow> uuid \<Rightarrow> mcp_server option" where
  "request_cached s ctx tenant_id = map_of (request_global_mcp_get s ctx) tenant_id"

text \<open>\<^verbatim>\<open>_request_global_mcp.set(d)\<close> in the context \<open>ctx\<close>, for a newly created
  dictionary \<open>d\<close>.\<close>

definition request_global_mcp_set_new ::
  "task_context \<Rightarrow> (uuid \<times> mcp_server) list \<Rightarrow> manager \<Rightarrow> manager" where
  "request_global_mcp_set_new ctx d s =
     s\<lparr>request_global_mcp := (request_global_mcp s)(ctx \<mapsto> dicts s),
       request_dicts := (request_dicts s)(dicts s := d),
       dicts := dicts s + 1\<rparr>"

text \<open>
  The end of \<^verbatim>\<open>get_global_mcp\<close>:
  \<^verbatim>\<open>request_cache = _request_global_mcp.get()\<close>, then, if it is empty,
  \<^verbatim>\<open>request_cache = {}; _request_global_mcp.set(request_cache)\<close>, and last
  \<^verbatim>\<open>request_cache[tenant_id] = mcp_server\<close>. A dictionary that is not empty is the
  one bound in the context, and it is written in place.
\<close>

definition cache_in_request :: "task_context \<Rightarrow> uuid \<Rightarrow> mcp_server \<Rightarrow> manager \<Rightarrow> manager" where
  "cache_in_request ctx tenant_id mcp_server s =
     (case request_global_mcp s ctx of
        None \<Rightarrow> request_global_mcp_set_new ctx [(tenant_id, mcp_server)] s
      | Some ref \<Rightarrow>
          if request_dicts s ref = []
          then request_global_mcp_set_new ctx [(tenant_id, mcp_server)] s
          else s\<lparr>request_dicts :=
                   (request_dicts s)(ref := dict_set tenant_id mcp_server (request_dicts s ref))\<rparr>)"

text \<open>
  Python's asyncio, not this module: a task created in the context \<open>parent\<close> (by
  \<^verbatim>\<open>asyncio.gather\<close> in \<^verbatim>\<open>create_triage_agent\<close> and \<^verbatim>\<open>create_sales_agent\<close>)
  runs in a copy \<open>child\<close> of it. The copy has the bindings of the parent, so both refer to
  the same dictionary object; what the child sets later is bound in the copy only.
\<close>

definition copy_context :: "task_context \<Rightarrow> task_context \<Rightarrow> manager \<Rightarrow> manager" where
  "copy_context parent child s =
     s\<lparr>request_global_mcp := (request_global_mcp s)(child := request_global_mcp s parent)\<rparr>"

subsection \<open>The helpers of the manager\<close>

definition ensure_exit_stack :: "manager \<Rightarrow> manager" where
  "ensure_exit_stack s =
     (case exit_stack s of None \<Rightarrow> s\<lparr>exit_stack := Some []\<rparr> | Some _ \<Rightarrow> s)"

definition get_tenant_lock :: "uuid \<Rightarrow> manager \<Rightarrow> manager" where
  "get_tenant_lock tenant_id s =
     (if tenant_id \<notin> locks s then s\<lparr>locks := insert tenant_id (locks s)\<rparr> else s)"

definition is_connection_stale :: "manager \<Rightarrow> datetime \<Rightarrow> uuid \<Rightarrow> string \<Rightarrow> bool" where
  "is_connection_stale s now tenant_id connection_type =
     (case connection_created_at s tenant_id of
        None \<Rightarrow> True
      | Some d \<Rightarrow>
          (case d connection_type of
             None \<Rightarrow> True
           | Some created_at \<Rightarrow> now - created_at > max_connection_age))"

definition invalidate_connection :: "uuid \<Rightarrow> string \<Rightarrow> manager \<Rightarrow> manager" where
  "invalidate_connection tenant_id connection_type s =
     s\<lparr>tenant_connections := pop_inner (tenant_connections s) tenant_id connection_type,
       connection_created_at := pop_inner (connection_created_at s) tenant_id connection_type,
       failed_connections := pop_inner (failed_connections s) tenant_id connection_type\<rparr>"

definition is_failure_expired :: "manager \<Rightarrow> datetime \<Rightarrow> uuid \<Rightarrow> string \<Rightarrow> bool" where
  "is_failure_expired s now tenant_id connection_type =
     (case failed_connections s tenant_id of
        None \<Rightarrow> True
      | Some d \<Rightarrow>
          (case d connection_type of
             None \<Rightarrow> True
           | Some failed_at \<Rightarrow> now - failed_at > failed_connection_ttl))"

definition mark_connection_failed :: "datetime \<Rightarrow> uuid \<Rightarrow> string \<Rightarrow> manager \<Rightarrow> manager" where
  "mark_connection_failed now tenant_id connection_type s =
     s\<lparr>failed_connections := set_inner (failed_connections s) tenant_id connection_type now\<rparr>"

definition is_creds_cache_stale :: "manager \<Rightarrow> datetime \<Rightarrow> uuid \<Rightarrow> string \<Rightarrow> bool" where
  "is_creds_cache_stale s now tenant_id creds_type =
     (case creds_cache_timestamps s tenant_id of
        None \<Rightarrow> True
      | Some d \<Rightarrow>
          (case d creds_type of
             None \<Rightarrow> True
           | Some cached_at \<Rightarrow> now - cached_at > creds_cache_ttl))"

subsection \<open>QuickBooks connections\<close>

text \<open>
  STEP 1 of \<^verbatim>\<open>get_quickbooks_mcp\<close>: the credentials, from the cache when the tenant
  has an entry (whatever its value) that is not stale, from the store otherwise. \<open>store\<close> is what
  \<^verbatim>\<open>get_quickbooks_credentials\<close> does when awaited: it raises, or returns the
  credentials or \<^verbatim>\<open>None\<close>. Only a result that is not \<^verbatim>\<open>None\<close> is cached.
\<close>

definition quickbooks_credentials ::
  "(exc + qb_creds option) \<Rightarrow> datetime \<Rightarrow> uuid \<Rightarrow> manager \<Rightarrow> (exc + qb_creds option) \<times> manager" where
  "quickbooks_credentials store now tenant_id s =
     (let s1 = s\<lparr>store_calls := store_calls s @ [(''quickbooks'', tenant_id)]\<rparr>;
          fetched =
            (case store of
               Inl e \<Rightarrow> (Inl e, s1)
             | Inr None \<Rightarrow> (Inr None, s1)
             | Inr (Some creds) \<Rightarrow>
                 (Inr (Some creds),
                  s1\<lparr>quickbooks_creds_cache :=
                       (quickbooks_creds_cache s1)(tenant_id \<mapsto> Some creds),
                     creds_cache_timestamps :=
                       set_inner (creds_cache_timestamps s1) tenant_id ''quickbooks'' now\<rparr>))
      in case quickbooks_creds_cache s tenant_id of
           None \<Rightarrow> fetched
         | Some cached \<Rightarrow>
             if \<not> is_creds_cache_stale s now tenant_id ''quickbooks''
             then (Inr cached, s) else fetched)"

text \<open>
  STEP 5: the server object is constructed and its session is entered on the exit
  stack, under \<^verbatim>\<open>asyncio.wait_for\<close>. \<open>outcome\<close> is \<open>None\<close> when the session is
  entered and \<open>Some e\<close> when entering it raises \<open>e\<close> (a timeout of \<^verbatim>\<open>wait_for\<close> is
  \<open>TimeoutError\<close>). Both handlers of the inner \<^verbatim>\<open>try\<close> mark the failure and
  return \<^verbatim>\<open>None\<close>. The assertion on the exit stack stands before the \<^verbatim>\<open>try\<close>.
\<close>

definition connect_quickbooks ::
  "settings \<Rightarrow> datetime \<Rightarrow> exc option \<Rightarrow> uuid \<Rightarrow> qb_creds \<Rightarrow> manager
     \<Rightarrow> (exc + mcp_server option) \<times> manager" where
  "connect_quickbooks cfg now outcome tenant_id creds s =
     (case exit_stack s of
        None \<Rightarrow> (Inl AssertionError, s)
      | Some stack \<Rightarrow>
          (let mcp_server =
                 \<lparr>obj_id = objects s,
                  name = ''QB_MCP_'' @ tenant_id,
                  url = accounts_mcp_server cfg,
                  headers =
                    [(''jsonrpc'', ''2.0''),
                     (''Content-Type'', ''application/json, text/event-stream''),
                     (''Authorization'', ''Bearer '' @ access_token creds),
                     (''x-quickbooks-realm-id'', realm_id creds)],
                  timeout = 8,
                  sse_read_timeout = 60 * 5,
                  client_session_timeout_seconds = 60,
                  max_retry_attempts = 1\<rparr>;
               s1 = s\<lparr>objects := objects s + 1, opens := opens s @ [mcp_server]\<rparr>
           in case outcome of
                Some e \<Rightarrow>
                  (case e of
                     TimeoutError \<Rightarrow>
                       (Inr None, mark_connection_failed now tenant_id ''quickbooks'' s1)
                   | CancelledError \<Rightarrow>
                       (Inr None, mark_connection_failed now tenant_id ''quickbooks'' s1)
                   | _ \<Rightarrow>
                       (Inr None, mark_connection_failed now tenant_id ''quickbooks'' s1))
              | None \<Rightarrow>
                  (Inr (Some mcp_server),
                   s1\<lparr>exit_stack := Some (stack @ [mcp_server]),
                      tenant_connections :=
                        set_inner (tenant_connections s1) tenant_id ''quickbooks'' mcp_server,
                      tenant_tokens := (tenant_tokens s1)(tenant_id \<mapsto> access_token creds),
                      connection_created_at :=
                        set_inner (connection_created_at s1) tenant_id ''quickbooks'' now\<rparr>)))"

text \<open>STEP 2: \<^verbatim>\<open>cached_token and cached_token != current_token\<close>.\<close>

definition token_changed :: "manager \<Rightarrow> uuid \<Rightarrow> string \<Rightarrow> bool" where
  "token_changed s tenant_id current_token =
     (case tenant_tokens s tenant_id of
        None \<Rightarrow> False
      | Some cached_token \<Rightarrow> cached_token \<noteq> [] \<and> cached_token \<noteq> current_token)"

text \<open>STEP 3 after STEP 2: the cached connection is invalidated when the token has
  changed, and then again when it is stale (which it is when it has no creation time).\<close>

definition refresh_quickbooks :: "datetime \<Rightarrow> uuid \<Rightarrow> string \<Rightarrow> manager \<Rightarrow> manager" where
  "refresh_quickbooks now tenant_id current_token s1 =
     (let s2 = (if token_changed s1 tenant_id current_token
                then invalidate_connection tenant_id ''quickbooks'' s1 else s1)
      in if is_connection_stale s2 now tenant_id ''quickbooks''
         then invalidate_connection tenant_id ''quickbooks'' s2 else s2)"

definition get_quickbooks_mcp ::
  "settings \<Rightarrow> datetime \<Rightarrow> (exc + qb_creds option) \<Rightarrow> exc option \<Rightarrow> uuid \<Rightarrow> manager
     \<Rightarrow> (exc + mcp_server option) \<times> manager" where
  "get_quickbooks_mcp cfg now store outcome tenant_id s0 =
     (case quickbooks_credentials store now tenant_id (get_tenant_lock tenant_id s0) of
        (Inl e, s1) \<Rightarrow> (Inl e, s1)
      | (Inr None, s1) \<Rightarrow> (Inr None, s1)
      | (Inr (Some creds), s1) \<Rightarrow>
          (let current_token = access_token creds;
               s3 = refresh_quickbooks now tenant_id current_token s1
           in case get_inner (tenant_connections s3) tenant_id ''quickbooks'' of
                Some cached \<Rightarrow> (Inr (Some cached), s3)
              | None \<Rightarrow>
                  if \<not> is_failure_expired s3 now tenant_id ''quickbooks''
                  then (Inr None, s3)
                  else connect_quickbooks cfg now outcome tenant_id creds
                         (ensure_exit_stack s3)))"

subsection \<open>Global connections\<close>

text \<open>
  \<^verbatim>\<open>_get_google_sheets_credentials\<close>. \<open>store\<close> is what the query for the tenant's
  active connection does: it raises, or returns the row (as the dictionary built from it)
  or no row. The result is cached with its time also when there is no row.
\<close>

definition get_google_sheets_credentials ::
  "(exc + sheets_creds option) \<Rightarrow> datetime \<Rightarrow> uuid \<Rightarrow> manager
     \<Rightarrow> (exc + sheets_creds option) \<times> manager" where
  "get_google_sheets_credentials store now tenant_id s =
     (let s1 = s\<lparr>store_calls := store_calls s @ [(''sheets'', tenant_id)]\<rparr>;
          fetched =
            (case store of
               Inl e \<Rightarrow> (Inl e, s1)
             | Inr None \<Rightarrow>
                 (Inr None,
                  s1\<lparr>sheets_creds_cache := (sheets_creds_cache s1)(tenant_id \<mapsto> None),
                     creds_cache_timestamps :=
                       set_inner (creds_cache_timestamps s1) tenant_id ''sheets'' now\<rparr>)
             | Inr (Some creds) \<Rightarrow>
                 (Inr (Some creds),
                  s1\<lparr>sheets_creds_cache := (sheets_creds_cache s1)(tenant_id \<mapsto> Some creds),
                     creds_cache_timestamps :=
                       set_inner (creds_cache_timestamps s1) tenant_id ''sheets'' now\<rparr>))
      in case sheets_creds_cache s tenant_id of
           None \<Rightarrow> fetched
         | Some cached \<Rightarrow>
             if \<not> is_creds_cache_stale s now tenant_id ''sheets''
             then (Inr cached, s) else fetched)"

text \<open>\<^verbatim>\<open>if creds.get(key): headers[header] = creds[key]\<close>.\<close>

definition optional_header :: "string \<Rightarrow> string option \<Rightarrow> (string \<times> string) list" where
  "optional_header header v =
     (case v of None \<Rightarrow> [] | Some x \<Rightarrow> if x \<noteq> [] then [(header, x)] else [])"

text \<open>STEP 5 of \<^verbatim>\<open>get_global_mcp\<close>.\<close>

definition global_headers :: "uuid \<Rightarrow> sheets_creds option \<Rightarrow> (string \<times> string) list" where
  "global_headers tenant_id sheets =
     [(''jsonrpc'', ''2.0''),
      (''Content-Type'', ''application/json, text/event-stream''),
      (''x-tenant-id'', tenant_id)]
     @ (case sheets of
          None \<Rightarrow> []
        | Some c \<Rightarrow>
            [(''x-user-refresh-token'', refresh_token c)]
            @ optional_header ''x-inventory-workbook-id'' (inventory_workbook_id c)
            @ optional_header ''x-inventory-worksheet-name'' (inventory_worksheet_name c)
            @ optional_header ''x-orders-workbook-id'' (orders_workbook_id c)
            @ optional_header ''x-orders-worksheet-name'' (orders_worksheet_name c))"

text \<open>STEP 6: as for QuickBooks, but the server is stored in the request-scoped cache
  of the calling context only.\<close>

definition connect_global ::
  "settings \<Rightarrow> task_context \<Rightarrow> datetime \<Rightarrow> exc option \<Rightarrow> uuid \<Rightarrow> sheets_creds option
     \<Rightarrow> manager \<Rightarrow> (exc + mcp_server option) \<times> manager" where
  "connect_global cfg ctx now outcome tenant_id sheets s =
     (case exit_stack s of
        None \<Rightarrow> (Inl AssertionError, s)
      | Some stack \<Rightarrow>
          (let mcp_server =
                 \<lparr>obj_id = objects s,
                  name = ''Global_Port8001_'' @ tenant_id,
                  url = global_mcp_server cfg,
                  headers = global_headers tenant_id sheets,
                  timeout = 5,
                  sse_read_timeout = 60 * 5,
                  client_session_timeout_seconds = 100,
                  max_retry_attempts = 0\<rparr>;
               s1 = s\<lparr>objects := objects s + 1, opens := opens s @ [mcp_server]\<rparr>
           in case outcome of
                Some e \<Rightarrow>
                  (case e of
                     TimeoutError \<Rightarrow>
                       (Inr None, mark_connection_failed now tenant_id ''global'' s1)
                   | CancelledError \<Rightarrow>
                       (Inr None, mark_connection_failed now tenant_id ''global'' s1)
                   | _ \<Rightarrow>
                       (Inr None, mark_connection_failed now tenant_id ''global'' s1))
              | None \<Rightarrow>
                  (Inr (Some mcp_server),
                   cache_in_request ctx tenant_id mcp_server
                     (s1\<lparr>exit_stack := Some (stack @ [mcp_server])\<rparr>))))"

definition get_global_mcp ::
  "settings \<Rightarrow> task_context \<Rightarrow> datetime \<Rightarrow> (exc + sheets_creds option) \<Rightarrow> exc option \<Rightarrow> uuid
     \<Rightarrow> manager \<Rightarrow> (exc + mcp_server option) \<times> manager" where
  "get_global_mcp cfg ctx now store outcome tenant_id s0 =
     (case request_cached s0 ctx tenant_id of
        Some cached \<Rightarrow> (Inr (Some cached), s0)
      | None \<Rightarrow>
          (let s = get_tenant_lock tenant_id s0 in
           case request_cached s ctx tenant_id of
             Some cached \<Rightarrow> (Inr (Some cached), s)
           | None \<Rightarrow>
               (case get_google_sheets_credentials store now tenant_id s of
                  (Inl e, s1) \<Rightarrow> (Inl e, s1)
                | (Inr sheets, s1) \<Rightarrow>
                    if \<not> is_failure_expired s1 now tenant_id ''global''
                    then (Inr None, s1)
                    else connect_global cfg ctx now outcome tenant_id sheets
                           (ensure_exit_stack s1))))"

subsection \<open>Invalidation and shutdown\<close>

definition invalidate_tenant :: "uuid \<Rightarrow> manager \<Rightarrow> manager" where
  "invalidate_tenant tenant_id s0 =
     (let s = get_tenant_lock tenant_id s0 in
      s\<lparr>tenant_connections := (tenant_connections s)(tenant_id := None),
        tenant_tokens := (tenant_tokens s)(tenant_id := None),
        connection_created_at := (connection_created_at s)(tenant_id := None),
        failed_connections := (failed_connections s)(tenant_id := None),
        quickbooks_creds_cache := (quickbooks_creds_cache s)(tenant_id := None),
        sheets_creds_cache := (sheets_creds_cache s)(tenant_id := None),
        creds_cache_timestamps := (creds_cache_timestamps s)(tenant_id := None)\<rparr>)"

text \<open>Both branches of \<^verbatim>\<open>handle_connection_error\<close> invalidate the connection.\<close>

definition handle_connection_error :: "uuid \<Rightarrow> string \<Rightarrow> exc \<Rightarrow> manager \<Rightarrow> manager" where
  "handle_connection_error tenant_id connection_type error s =
     (if error = ClosedResourceError
      then invalidate_connection tenant_id connection_type s
      else invalidate_connection tenant_id connection_type s)"

text \<open>
  \<^verbatim>\<open>cleanup\<close>. Leaving the exit stack closes the sessions entered on it, last one
  first; \<open>aexit\<close> is the exception this raises, if any, which the handler prints. The
  \<^verbatim>\<open>finally\<close> block clears three fields and drops the exit stack.
\<close>

definition cleanup :: "exc option \<Rightarrow> manager \<Rightarrow> manager" where
  "cleanup aexit s =
     (let s1 = (case exit_stack s of
                  None \<Rightarrow> s
                | Some stack \<Rightarrow>
                    (case aexit of
                       None \<Rightarrow> s\<lparr>closed := closed s @ rev stack\<rparr>
                     | Some e \<Rightarrow> s\<lparr>closed := closed s @ rev stack\<rparr>))
      in s1\<lparr>tenant_connections := Map.empty, tenant_tokens := Map.empty, locks := {},
            exit_stack := None\<rparr>)"

text \<open>\<^verbatim>\<open>clear_request_mcp_cache\<close>, called in the context \<open>ctx\<close>: the variable is set to
  a new empty dictionary there. The dictionary bound before is not written to.\<close>

definition clear_request_mcp_cache :: "task_context \<Rightarrow> manager \<Rightarrow> manager" where
  "clear_request_mcp_cache ctx s = request_global_mcp_set_new ctx [] s"

subsection \<open>Example states\<close>

definition demo_settings :: settings where
  "demo_settings = \<lparr>accounts_mcp_server = ''http://localhost:8002/mcp'',
     global_mcp_server = ''http://localhost:8001/mcp''\<rparr>"

definition demo_creds :: qb_creds where
  "demo_creds = \<lparr>access_token = ''token-1'', realm_id = ''realm-9''\<rparr>"

definition demo_server :: mcp_server where
  "demo_server = \<lparr>obj_id = 0, name = ''QB_MCP_t1'', url = ''http://localhost:8002/mcp'',
     headers = [(''jsonrpc'', ''2.0''),
       (''Content-Type'', ''application/json, text/event-stream''),
       (''Authorization'', ''Bearer token-1''), (''x-quickbooks-realm-id'', ''realm-9'')],
     timeout = 8, sse_read_timeout = 300, client_session_timeout_seconds = 60,
     max_retry_attempts = 1\<rparr>"

text \<open>The manager after one QuickBooks connection for tenant \<open>t1\<close> was opened at time 0
  with \<open>demo_creds\<close>.\<close>

definition connected :: manager where
  "connected = init\<lparr>exit_stack := Some [demo_server],
     tenant_connections := [''t1'' \<mapsto> [''quickbooks'' \<mapsto> demo_server]],
     tenant_tokens := [''t1'' \<mapsto> ''token-1''],
     connection_created_at := [''t1'' \<mapsto> [''quickbooks'' \<mapsto> 0]],
     locks := {''t1''},
     quickbooks_creds_cache := [''t1'' \<mapsto> Some demo_creds],
     creds_cache_timestamps := [''t1'' \<mapsto> [''quickbooks'' \<mapsto> 0]],
     objects := 1, opens := [demo_server], store_calls := [(''quickbooks'', ''t1'')]\<rparr>"

text \<open>The manager after a first QuickBooks open for tenant \<open>t1\<close> failed at time 0.\<close>

definition failed_once :: manager where
  "failed_once = init\<lparr>exit_stack := Some [],
     failed_connections := [''t1'' \<mapsto> [''quickbooks'' \<mapsto> 0]],
     locks := {''t1''},
     quickbooks_creds_cache := [''t1'' \<mapsto> Some demo_creds],
     creds_cache_timestamps := [''t1'' \<mapsto> [''quickbooks'' \<mapsto> 0]],
     objects := 1, opens := [demo_server], store_calls := [(''quickbooks'', ''t1'')]\<rparr>"

text \<open>The server opened for tenant \<open>t1\<close> by \<^verbatim>\<open>get_global_mcp\<close> when the tenant has no
  Google Sheets connection, and the manager after that first call, made at time 0 in the
  context 0.\<close>

definition global_server :: mcp_server where
  "global_server = \<lparr>obj_id = 0, name = ''Global_Port8001_t1'',
     url = ''http://localhost:8001/mcp'',
     headers = [(''jsonrpc'', ''2.0''),
       (''Content-Type'', ''application/json, text/event-stream''),
       (''x-tenant-id'', ''t1'')],
     timeout = 5, sse_read_timeout = 300, client_session_timeout_seconds = 100,
     max_retry_attempts = 0\<rparr>"

definition global_connected :: manager where
  "global_connected = init\<lparr>exit_stack := Some [global_server],
     locks := {''t1''},
     sheets_creds_cache := [''t1'' \<mapsto> None],
     creds_cache_timestamps := [''t1'' \<mapsto> [''sheets'' \<mapsto> 0]],
     request_global_mcp := [0 \<mapsto> 0],
     request_dicts := (\<lambda>ref. [])(0 := [(''t1'', global_server)]), dicts := 1,
     objects := 1, opens := [global_server], store_calls := [(''sheets'', ''t1'')]\<rparr>"

text \<open>Every server in the registry is an object that has been constructed: its
  identity is below the number of objects constructed so far.\<close>

definition registry_known :: "manager \<Rightarrow> bool" where
  "registry_known s \<longleftrightarrow>
     (\<forall>t c h. get_inner (tenant_connections s) t c = Some h \<longrightarrow> obj_id h < objects s)"

text \<open>The manager after the call that opened \<open>global_server\<close> was made at time 0 in
  the context 1 instead.\<close>

definition sibling_connected :: manager where
  "sibling_connected = global_connected\<lparr>request_global_mcp := [1 \<mapsto> 0]\<rparr>"

text \<open>Credentials whose access token is the empty string, the server opened with them
  for tenant \<open>t1\<close>, and the manager after that connection was opened at time 0.\<close>

definition empty_token_creds :: qb_creds where
  "empty_token_creds = \<lparr>access_token = [], realm_id = ''realm-9''\<rparr>"

definition empty_token_server :: mcp_server where
  "empty_token_server = \<lparr>obj_id = 0, name = ''QB_MCP_t1'',
     url = ''http://localhost:8002/mcp'',
     headers = [(''jsonrpc'', ''2.0''),
       (''Content-Type'', ''application/json, text/event-stream''),
       (''Authorization'', ''Bearer ''), (''x-quickbooks-realm-id'', ''realm-9'')],
     timeout = 8, sse_read_timeout = 300, client_session_timeout_seconds = 60,
     max_retry_attempts = 1\<rparr>"

definition connected_empty_token :: manager where
  "connected_empty_token = init\<lparr>exit_stack := Some [empty_token_server],
     tenant_connections := [''t1'' \<mapsto> [''quickbooks'' \<mapsto> empty_token_server]],
     tenant_tokens := [''t1'' \<mapsto> []],
     connection_created_at := [''t1'' \<mapsto> [''quickbooks'' \<mapsto> 0]],
     locks := {''t1''},
     quickbooks_creds_cache := [''t1'' \<mapsto> Some empty_token_creds],
     creds_cache_timestamps := [''t1'' \<mapsto> [''quickbooks'' \<mapsto> 0]],
     objects := 1, opens := [empty_token_server],
     store_calls := [(''quickbooks'', ''t1'')]\<rparr>"

section \<open>Properties\<close>

subsection \<open>Facts about the nested dictionaries\<close>

lemma get_set_inner [simp]:
  "get_inner (set_inner m a b v) a' b' =
     (if a' = a \<and> b' = b then Some v else get_inner m a' b')"
  by (auto simp: get_inner_def set_inner_def split: option.splits)

lemma get_pop_inner [simp]:
  "get_inner (pop_inner m a b) a' b' =
     (if a' = a \<and> b' = b then None else get_inner m a' b')"
  by (auto simp: get_inner_def pop_inner_def split: option.splits)

lemma get_inner_empty [simp]: "get_inner Map.empty a b = None"
  by (simp add: get_inner_def)

lemma pop_inner_twice [simp]: "pop_inner (pop_inner m a b) a b = pop_inner m a b"
  by (auto simp: pop_inner_def split: option.splits)

lemma is_connection_stale_get:
  "is_connection_stale s now t c =
     (case get_inner (connection_created_at s) t c of
        None \<Rightarrow> True
      | Some created_at \<Rightarrow> now - created_at > max_connection_age)"
  by (simp add: is_connection_stale_def get_inner_def split: option.splits)

lemma is_failure_expired_get:
  "is_failure_expired s now t c =
     (case get_inner (failed_connections s) t c of
        None \<Rightarrow> True
      | Some failed_at \<Rightarrow> now - failed_at > failed_connection_ttl)"
  by (simp add: is_failure_expired_def get_inner_def split: option.splits)

lemma is_creds_cache_stale_get:
  "is_creds_cache_stale s now t c =
     (case get_inner (creds_cache_timestamps s) t c of
        None \<Rightarrow> True
      | Some cached_at \<Rightarrow> now - cached_at > creds_cache_ttl)"
  by (simp add: is_creds_cache_stale_def get_inner_def split: option.splits)

subsection \<open>What each step leaves alone\<close>

lemma get_tenant_lock_frame [simp]:
  shows "exit_stack (get_tenant_lock t s) = exit_stack s"
    and "tenant_connections (get_tenant_lock t s) = tenant_connections s"
    and "tenant_tokens (get_tenant_lock t s) = tenant_tokens s"
    and "connection_created_at (get_tenant_lock t s) = connection_created_at s"
    and "failed_connections (get_tenant_lock t s) = failed_connections s"
    and "quickbooks_creds_cache (get_tenant_lock t s) = quickbooks_creds_cache s"
    and "sheets_creds_cache (get_tenant_lock t s) = sheets_creds_cache s"
    and "creds_cache_timestamps (get_tenant_lock t s) = creds_cache_timestamps s"
    and "request_global_mcp (get_tenant_lock t s) = request_global_mcp s"
    and "request_dicts (get_tenant_lock t s) = request_dicts s"
    and "dicts (get_tenant_lock t s) = dicts s"
    and "objects (get_tenant_lock t s) = objects s"
    and "opens (get_tenant_lock t s) = opens s"
    and "closed (get_tenant_lock t s) = closed s"
    and "store_calls (get_tenant_lock t s) = store_calls s"
  by (simp_all add: get_tenant_lock_def)

lemma ensure_exit_stack_frame [simp]:
  shows "tenant_connections (ensure_exit_stack s) = tenant_connections s"
    and "tenant_tokens (ensure_exit_stack s) = tenant_tokens s"
    and "connection_created_at (ensure_exit_stack s) = connection_created_at s"
    and "failed_connections (ensure_exit_stack s) = failed_connections s"
    and "locks (ensure_exit_stack s) = locks s"
    and "quickbooks_creds_cache (ensure_exit_stack s) = quickbooks_creds_cache s"
    and "sheets_creds_cache (ensure_exit_stack s) = sheets_creds_cache s"
    and "creds_cache_timestamps (ensure_exit_stack s) = creds_cache_timestamps s"
    and "request_global_mcp (ensure_exit_stack s) = request_global_mcp s"
    and "request_dicts (ensure_exit_stack s) = request_dicts s"
    and "dicts (ensure_exit_stack s) = dicts s"
    and "objects (ensure_exit_stack s) = objects s"
    and "opens (ensure_exit_stack s) = opens s"
    and "closed (ensure_exit_stack s) = closed s"
    and "store_calls (ensure_exit_stack s) = store_calls s"
  by (simp_all add: ensure_exit_stack_def split: option.splits)

lemma quickbooks_credentials_frame [simp]:
  shows "exit_stack (snd (quickbooks_credentials store now t s)) = exit_stack s"
    and "tenant_connections (snd (quickbooks_credentials store now t s)) = tenant_connections s"
    and "tenant_tokens (snd (quickbooks_credentials store now t s)) = tenant_tokens s"
    and "connection_created_at (snd (quickbooks_credentials store now t s)) = connection_created_at s"
    and "failed_connections (snd (quickbooks_credentials store now t s)) = failed_connections s"
    and "locks (snd (quickbooks_credentials store now t s)) = locks s"
    and "sheets_creds_cache (snd (quickbooks_credentials store now t s)) = sheets_creds_cache s"
    and "request_global_mcp (snd (quickbooks_credentials store now t s)) = request_global_mcp s"
    and "request_dicts (snd (quickbooks_credentials store now t s)) = request_dicts s"
    and "dicts (snd (quickbooks_credentials store now t s)) = dicts s"
    and "objects (snd (quickbooks_credentials store now t s)) = objects s"
    and "opens (snd (quickbooks_credentials store now t s)) = opens s"
    and "closed (snd (quickbooks_credentials store now t s)) = closed s"
  by (simp_all add: quickbooks_credentials_def Let_def split: sum.splits option.splits)

lemma get_google_sheets_credentials_frame [simp]:
  shows "exit_stack (snd (get_google_sheets_credentials store now t s)) = exit_stack s"
    and "tenant_connections (snd (get_google_sheets_credentials store now t s)) = tenant_connections s"
    and "tenant_tokens (snd (get_google_sheets_credentials store now t s)) = tenant_tokens s"
    and "connection_created_at (snd (get_google_sheets_credentials store now t s)) = connection_created_at s"
    and "failed_connections (snd (get_google_sheets_credentials store now t s)) = failed_connections s"
    and "locks (snd (get_google_sheets_credentials store now t s)) = locks s"
    and "quickbooks_creds_cache (snd (get_google_sheets_credentials store now t s)) = quickbooks_creds_cache s"
    and "request_global_mcp (snd (get_google_sheets_credentials store now t s)) = request_global_mcp s"
    and "request_dicts (snd (get_google_sheets_credentials store now t s)) = request_dicts s"
    and "dicts (snd (get_google_sheets_credentials store now t s)) = dicts s"
    and "objects (snd (get_google_sheets_credentials store now t s)) = objects s"
    and "opens (snd (get_google_sheets_credentials store now t s)) = opens s"
    and "closed (snd (get_google_sheets_credentials store now t s)) = closed s"
  by (simp_all add: get_google_sheets_credentials_def Let_def split: sum.splits option.splits)

lemma invalidate_connection_frame [simp]:
  shows "exit_stack (invalidate_connection t c s) = exit_stack s"
    and "tenant_tokens (invalidate_connection t c s) = tenant_tokens s"
    and "locks (invalidate_connection t c s) = locks s"
    and "quickbooks_creds_cache (invalidate_connection t c s) = quickbooks_creds_cache s"
    and "sheets_creds_cache (invalidate_connection t c s) = sheets_creds_cache s"
    and "creds_cache_timestamps (invalidate_connection t c s) = creds_cache_timestamps s"
    and "request_global_mcp (invalidate_connection t c s) = request_global_mcp s"
    and "request_dicts (invalidate_connection t c s) = request_dicts s"
    and "dicts (invalidate_connection t c s) = dicts s"
    and "objects (invalidate_connection t c s) = objects s"
    and "opens (invalidate_connection t c s) = opens s"
    and "closed (invalidate_connection t c s) = closed s"
    and "store_calls (invalidate_connection t c s) = store_calls s"
  by (simp_all add: invalidate_connection_def)

lemma mark_connection_failed_frame [simp]:
  shows "exit_stack (mark_connection_failed now t c s) = exit_stack s"
    and "tenant_connections (mark_connection_failed now t c s) = tenant_connections s"
    and "tenant_tokens (mark_connection_failed now t c s) = tenant_tokens s"
    and "connection_created_at (mark_connection_failed now t c s) = connection_created_at s"
    and "locks (mark_connection_failed now t c s) = locks s"
    and "quickbooks_creds_cache (mark_connection_failed now t c s) = quickbooks_creds_cache s"
    and "sheets_creds_cache (mark_connection_failed now t c s) = sheets_creds_cache s"
    and "creds_cache_timestamps (mark_connection_failed now t c s) = creds_cache_timestamps s"
    and "request_global_mcp (mark_connection_failed now t c s) = request_global_mcp s"
    and "request_dicts (mark_connection_failed now t c s) = request_dicts s"
    and "dicts (mark_connection_failed now t c s) = dicts s"
    and "objects (mark_connection_failed now t c s) = objects s"
    and "opens (mark_connection_failed now t c s) = opens s"
    and "closed (mark_connection_failed now t c s) = closed s"
    and "store_calls (mark_connection_failed now t c s) = store_calls s"
  by (simp_all add: mark_connection_failed_def)


lemma invalidate_connection_get [simp]:
  shows "get_inner (tenant_connections (invalidate_connection t c s)) t' c' =
           (if t' = t \<and> c' = c then None else get_inner (tenant_connections s) t' c')"
    and "get_inner (connection_created_at (invalidate_connection t c s)) t' c' =
           (if t' = t \<and> c' = c then None else get_inner (connection_created_at s) t' c')"
    and "get_inner (failed_connections (invalidate_connection t c s)) t' c' =
           (if t' = t \<and> c' = c then None else get_inner (failed_connections s) t' c')"
  by (simp_all add: invalidate_connection_def)

lemma invalidate_connection_twice [simp]:
  "invalidate_connection t c (invalidate_connection t c s) = invalidate_connection t c s"
  by (simp add: invalidate_connection_def)

lemma token_changed_invalidate [simp]:
  "token_changed (invalidate_connection t c s) t' tok = token_changed s t' tok"
  by (simp add: token_changed_def)

lemma stale_after_invalidate [simp]:
  "is_connection_stale (invalidate_connection t c s) now t c"
  by (simp add: is_connection_stale_get)

lemma mark_connection_failed_get [simp]:
  "get_inner (failed_connections (mark_connection_failed now t c s)) t' c' =
     (if t' = t \<and> c' = c then Some now else get_inner (failed_connections s) t' c')"
  by (simp add: mark_connection_failed_def)

lemma ensure_exit_stack_Some:
  "exit_stack (ensure_exit_stack s) = Some (case exit_stack s of None \<Rightarrow> [] | Some st \<Rightarrow> st)"
  by (simp add: ensure_exit_stack_def split: option.splits)

text \<open>Steps 2 and 3 together invalidate the connection once, or not at all.\<close>

lemma refresh_quickbooks_eq:
  "refresh_quickbooks now t tok s =
     (if token_changed s t tok \<or> is_connection_stale s now t ''quickbooks''
      then invalidate_connection t ''quickbooks'' s else s)"
  by (simp add: refresh_quickbooks_def Let_def)

lemma refresh_quickbooks_frame [simp]:
  shows "exit_stack (refresh_quickbooks now t tok s) = exit_stack s"
    and "tenant_tokens (refresh_quickbooks now t tok s) = tenant_tokens s"
    and "locks (refresh_quickbooks now t tok s) = locks s"
    and "quickbooks_creds_cache (refresh_quickbooks now t tok s) = quickbooks_creds_cache s"
    and "sheets_creds_cache (refresh_quickbooks now t tok s) = sheets_creds_cache s"
    and "creds_cache_timestamps (refresh_quickbooks now t tok s) = creds_cache_timestamps s"
    and "request_global_mcp (refresh_quickbooks now t tok s) = request_global_mcp s"
    and "request_dicts (refresh_quickbooks now t tok s) = request_dicts s"
    and "dicts (refresh_quickbooks now t tok s) = dicts s"
    and "objects (refresh_quickbooks now t tok s) = objects s"
    and "opens (refresh_quickbooks now t tok s) = opens s"
    and "closed (refresh_quickbooks now t tok s) = closed s"
    and "store_calls (refresh_quickbooks now t tok s) = store_calls s"
  by (simp_all add: refresh_quickbooks_eq)


lemma connect_quickbooks_raises:
  assumes "exit_stack s = Some stack"
  shows "connect_quickbooks cfg now (Some e) t creds s =
           (Inr None,
            mark_connection_failed now t ''quickbooks''
              (s\<lparr>objects := objects s + 1,
                 opens := opens s @ [\<lparr>obj_id = objects s, name = ''QB_MCP_'' @ t,
                   url = accounts_mcp_server cfg,
                   headers = [(''jsonrpc'', ''2.0''),
                     (''Content-Type'', ''application/json, text/event-stream''),
                     (''Authorization'', ''Bearer '' @ access_token creds),
                     (''x-quickbooks-realm-id'', realm_id creds)],
                   timeout = 8, sse_read_timeout = 60 * 5,
                   client_session_timeout_seconds = 60, max_retry_attempts = 1\<rparr>]\<rparr>))"
  using assms by (simp add: connect_quickbooks_def Let_def split: exc.splits)

lemma connect_global_raises:
  assumes "exit_stack s = Some stack"
  shows "connect_global cfg ctx now (Some e) t sheets s =
           (Inr None,
            mark_connection_failed now t ''global''
              (s\<lparr>objects := objects s + 1,
                 opens := opens s @ [\<lparr>obj_id = objects s, name = ''Global_Port8001_'' @ t,
                   url = global_mcp_server cfg,
                   headers = global_headers t sheets,
                   timeout = 5, sse_read_timeout = 60 * 5,
                   client_session_timeout_seconds = 100, max_retry_attempts = 0\<rparr>]\<rparr>))"
  using assms by (simp add: connect_global_def Let_def split: exc.splits)

subsection \<open>Facts about the request-scoped cache\<close>

lemma map_of_dict_set [simp]: "map_of (dict_set k v d) = (map_of d)(k \<mapsto> v)"
  by (induction d) auto

lemma request_cached_frame [simp]:
  shows "request_cached (get_tenant_lock t s) ctx t' = request_cached s ctx t'"
    and "request_cached (ensure_exit_stack s) ctx t' = request_cached s ctx t'"
    and "request_cached (snd (quickbooks_credentials qstore now t s)) ctx t'
           = request_cached s ctx t'"
    and "request_cached (snd (get_google_sheets_credentials gstore now t s)) ctx t'
           = request_cached s ctx t'"
    and "request_cached (mark_connection_failed now t c s) ctx t' = request_cached s ctx t'"
    and "request_cached (invalidate_connection t c s) ctx t' = request_cached s ctx t'"
  by (simp_all add: request_cached_def request_global_mcp_get_def split: option.splits)

lemma request_cached_init [simp]: "request_cached init ctx t = None"
  by (simp add: request_cached_def request_global_mcp_get_def init_def)

lemma cache_in_request_frame [simp]:
  shows "exit_stack (cache_in_request ctx t h s) = exit_stack s"
    and "tenant_connections (cache_in_request ctx t h s) = tenant_connections s"
    and "tenant_tokens (cache_in_request ctx t h s) = tenant_tokens s"
    and "connection_created_at (cache_in_request ctx t h s) = connection_created_at s"
    and "failed_connections (cache_in_request ctx t h s) = failed_connections s"
    and "locks (cache_in_request ctx t h s) = locks s"
    and "quickbooks_creds_cache (cache_in_request ctx t h s) = quickbooks_creds_cache s"
    and "sheets_creds_cache (cache_in_request ctx t h s) = sheets_creds_cache s"
    and "creds_cache_timestamps (cache_in_request ctx t h s) = creds_cache_timestamps s"
    and "objects (cache_in_request ctx t h s) = objects s"
    and "opens (cache_in_request ctx t h s) = opens s"
    and "closed (cache_in_request ctx t h s) = closed s"
    and "store_calls (cache_in_request ctx t h s) = store_calls s"
  by (simp_all add: cache_in_request_def request_global_mcp_set_new_def split: option.splits)

lemma cache_in_request_cached [simp]:
  "request_cached (cache_in_request ctx t h s) ctx t = Some h"
  by (simp add: cache_in_request_def request_global_mcp_set_new_def request_cached_def
      request_global_mcp_get_def split: option.splits)

lemma clear_request_mcp_cache_frame [simp]:
  shows "exit_stack (clear_request_mcp_cache ctx s) = exit_stack s"
    and "tenant_connections (clear_request_mcp_cache ctx s) = tenant_connections s"
    and "tenant_tokens (clear_request_mcp_cache ctx s) = tenant_tokens s"
    and "connection_created_at (clear_request_mcp_cache ctx s) = connection_created_at s"
    and "failed_connections (clear_request_mcp_cache ctx s) = failed_connections s"
    and "locks (clear_request_mcp_cache ctx s) = locks s"
    and "quickbooks_creds_cache (clear_request_mcp_cache ctx s) = quickbooks_creds_cache s"
    and "sheets_creds_cache (clear_request_mcp_cache ctx s) = sheets_creds_cache s"
    and "creds_cache_timestamps (clear_request_mcp_cache ctx s) = creds_cache_timestamps s"
    and "objects (clear_request_mcp_cache ctx s) = objects s"
    and "opens (clear_request_mcp_cache ctx s) = opens s"
    and "closed (clear_request_mcp_cache ctx s) = closed s"
    and "store_calls (clear_request_mcp_cache ctx s) = store_calls s"
  by (simp_all add: clear_request_mcp_cache_def request_global_mcp_set_new_def)

lemma clear_request_mcp_cache_cached [simp]:
  "request_cached (clear_request_mcp_cache ctx s) ctx t = None"
  by (simp add: clear_request_mcp_cache_def request_global_mcp_set_new_def request_cached_def
      request_global_mcp_get_def)

subsection \<open>The checks after the first steps\<close>

lemma checks_after_lock [simp]:
  shows "is_creds_cache_stale (get_tenant_lock t s) now t' c = is_creds_cache_stale s now t' c"
    and "is_failure_expired (get_tenant_lock t s) now t' c = is_failure_expired s now t' c"
    and "is_connection_stale (get_tenant_lock t s) now t' c = is_connection_stale s now t' c"
    and "token_changed (get_tenant_lock t s) t' tok = token_changed s t' tok"
  by (simp_all add: is_creds_cache_stale_def is_failure_expired_def is_connection_stale_def
      token_changed_def)

lemma checks_after_credentials [simp]:
  shows "is_failure_expired (snd (quickbooks_credentials qstore now0 t s)) now t' c
           = is_failure_expired s now t' c"
    and "is_connection_stale (snd (quickbooks_credentials qstore now0 t s)) now t' c
           = is_connection_stale s now t' c"
    and "token_changed (snd (quickbooks_credentials qstore now0 t s)) t' tok
           = token_changed s t' tok"
    and "is_failure_expired (snd (get_google_sheets_credentials gstore now0 t s)) now t' c
           = is_failure_expired s now t' c"
  by (simp_all add: is_failure_expired_def is_connection_stale_def token_changed_def)

lemma checks_after_clear [simp]:
  "is_failure_expired (clear_request_mcp_cache ctx s) now t c = is_failure_expired s now t c"
  by (simp add: is_failure_expired_def)

lemma snd_eqD: "f = (a, b) \<Longrightarrow> b = snd f" by simp

lemma pair_eqD: "f = (a, b) \<Longrightarrow> a = fst f \<and> b = snd f"
  by simp

lemma get_google_sheets_credentials_no_raise [simp]:
  shows "fst (get_google_sheets_credentials (Inr x) now t s) \<noteq> Inl e"
    and "Inl e \<noteq> fst (get_google_sheets_credentials (Inr x) now t s)"
  by (simp_all add: get_google_sheets_credentials_def Let_def split: option.splits)

lemma quickbooks_credentials_no_raise [simp]:
  shows "fst (quickbooks_credentials (Inr x) now t s) \<noteq> Inl e"
    and "Inl e \<noteq> fst (quickbooks_credentials (Inr x) now t s)"
  by (simp_all add: quickbooks_credentials_def Let_def split: option.splits)

text \<open>The definitions to unfold when a call is run on a concrete state.\<close>

lemmas run_defs = get_quickbooks_mcp_def quickbooks_credentials_def get_tenant_lock_def
  refresh_quickbooks_eq token_changed_def is_connection_stale_get is_failure_expired_get
  is_creds_cache_stale_get connect_quickbooks_def ensure_exit_stack_def
  get_global_mcp_def get_google_sheets_credentials_def connect_global_def
  request_cached_def request_global_mcp_get_def cache_in_request_def
  request_global_mcp_set_new_def
  mark_connection_failed_def invalidate_connection_def
  set_inner_def get_inner_def pop_inner_def
  failed_connection_ttl_def max_connection_age_def creds_cache_ttl_def Let_def

subsection \<open>Examples are reachable\<close>


section \<open>The claims\<close>

text \<open>
  C10. When a tenant has a QuickBooks server in the registry and the credential lookup of
  \<^verbatim>\<open>get_quickbooks_mcp\<close> yields no credentials, the call returns \<^verbatim>\<open>None\<close>, and
  the registry and the creation times are exactly what they were: the server stays
  registered. No session is opened.
\<close>

theorem credential_removal_keeps_registry:
  assumes "get_inner (tenant_connections s) tenant_id ''quickbooks'' = Some h"
    and "fst (quickbooks_credentials store now tenant_id (get_tenant_lock tenant_id s)) = Inr None"
    and "get_quickbooks_mcp cfg now store outcome tenant_id s = (r, s')"
  shows "r = Inr None
    \<and> tenant_connections s' = tenant_connections s
    \<and> connection_created_at s' = connection_created_at s
    \<and> get_inner (tenant_connections s') tenant_id ''quickbooks'' = Some h
    \<and> opens s' = opens s"
proof -
  obtain cr s1 where c: "quickbooks_credentials store now tenant_id (get_tenant_lock tenant_id s) = (cr, s1)"
    by (cases "quickbooks_credentials store now tenant_id (get_tenant_lock tenant_id s)")
  with assms(2) have cr: "cr = Inr None" by simp
  have s1: "s1 = snd (quickbooks_credentials store now tenant_id (get_tenant_lock tenant_id s))"
    using c by simp
  from assms(3) c cr have "r = Inr None" "s' = s1"
    by (simp_all add: get_quickbooks_mcp_def)
  then show ?thesis using assms(1) by (simp add: s1)
qed

theorem credential_removal_keeps_registry_witness:
  "get_inner (tenant_connections connected) ''t1'' ''quickbooks'' = Some demo_server
   \<and> fst (get_quickbooks_mcp demo_settings 301000000 (Inr None) None ''t1'' connected) = Inr None
   \<and> get_inner (tenant_connections
        (snd (get_quickbooks_mcp demo_settings 301000000 (Inr None) None ''t1'' connected)))
        ''t1'' ''quickbooks'' = Some demo_server"
proof -
  have a: "get_inner (tenant_connections connected) ''t1'' ''quickbooks'' = Some demo_server"
    by (simp add: connected_def get_inner_def)
  have b: "fst (quickbooks_credentials (Inr None) 301000000 ''t1'' (get_tenant_lock ''t1'' connected)) = Inr None"
    by (simp add: quickbooks_credentials_def get_tenant_lock_def connected_def init_def
        is_creds_cache_stale_get get_inner_def creds_cache_ttl_def Let_def)
  show ?thesis
    using a credential_removal_keeps_registry [OF a b, of demo_settings None
        "fst (get_quickbooks_mcp demo_settings 301000000 (Inr None) None ''t1'' connected)"
        "snd (get_quickbooks_mcp demo_settings 301000000 (Inr None) None ''t1'' connected)"]
    by simp
qed

subsection \<open>Opening a session that raises\<close>

text \<open>A call makes an open call only on the path where the handlers record the failure:
  if the log of opens grew while the session raised, the failure is recorded.\<close>

lemma quickbooks_raises:
  assumes "get_quickbooks_mcp cfg now store (Some e) tenant_id s = (r, s')"
    and "opens s' \<noteq> opens s"
  shows "r = Inr None
     \<and> get_inner (failed_connections s') tenant_id ''quickbooks'' = Some now
     \<and> get_inner (tenant_connections s') tenant_id ''quickbooks'' = None
     \<and> exit_stack s' = exit_stack (ensure_exit_stack s)"
  using assms
  by (auto simp: get_quickbooks_mcp_def Let_def connect_quickbooks_raises [OF ensure_exit_stack_Some]
        ensure_exit_stack_Some
      dest!: snd_eqD split: prod.splits sum.splits option.splits if_splits)

lemma global_raises:
  assumes "get_global_mcp cfg ctx now store (Some e) tenant_id s = (r, s')"
    and "opens s' \<noteq> opens s"
  shows "r = Inr None
     \<and> get_inner (failed_connections s') tenant_id ''global'' = Some now
     \<and> tenant_connections s' = tenant_connections s
     \<and> exit_stack s' = exit_stack (ensure_exit_stack s)
     \<and> request_global_mcp s' = request_global_mcp s
     \<and> request_dicts s' = request_dicts s"
  using assms
  by (auto simp: get_global_mcp_def Let_def connect_global_raises [OF ensure_exit_stack_Some]
        ensure_exit_stack_Some
      dest!: snd_eqD split: prod.splits sum.splits option.splits if_splits)

text \<open>
  The QuickBooks call reaches the open call exactly when credentials are resolved and
  either the connection is invalidated (the token changed or the connection is stale), or
  nothing is registered and no backoff is active. If entering the session then raises,
  whatever the exception, the handlers run.
\<close>

lemma quickbooks_open_raises:
  assumes cred: "fst (quickbooks_credentials store now tenant_id (get_tenant_lock tenant_id s))
             = Inr (Some creds)"
    and path: "token_changed s tenant_id (access_token creds)
             \<or> is_connection_stale s now tenant_id ''quickbooks''
             \<or> get_inner (tenant_connections s) tenant_id ''quickbooks'' = None
                \<and> is_failure_expired s now tenant_id ''quickbooks''"
    and call: "get_quickbooks_mcp cfg now store (Some e) tenant_id s = (r, s')"
  shows "r = Inr None
     \<and> get_inner (failed_connections s') tenant_id ''quickbooks'' = Some now
     \<and> get_inner (tenant_connections s') tenant_id ''quickbooks'' = None
     \<and> exit_stack s' = exit_stack (ensure_exit_stack s)
     \<and> (\<exists>h. opens s' = opens s @ [h])"
proof -
  let ?l = "get_tenant_lock tenant_id s"
  obtain cr s1 where c: "quickbooks_credentials store now tenant_id ?l = (cr, s1)"
    by (cases "quickbooks_credentials store now tenant_id ?l")
  have cr: "cr = Inr (Some creds)" using cred c by simp
  have s1: "s1 = snd (quickbooks_credentials store now tenant_id ?l)" using c by simp
  let ?s3 = "refresh_quickbooks now tenant_id (access_token creds) s1"
  have path1: "token_changed s1 tenant_id (access_token creds)
             \<or> is_connection_stale s1 now tenant_id ''quickbooks''
             \<or> get_inner (tenant_connections s1) tenant_id ''quickbooks'' = None
                \<and> is_failure_expired s1 now tenant_id ''quickbooks''"
    using path by (simp add: s1)
  have none: "get_inner (tenant_connections ?s3) tenant_id ''quickbooks'' = None"
    using path1 by (auto simp: refresh_quickbooks_eq)
  have expired: "is_failure_expired ?s3 now tenant_id ''quickbooks''"
    using path1 by (auto simp: refresh_quickbooks_eq is_failure_expired_get)
  have conn: "connect_quickbooks cfg now (Some e) tenant_id creds (ensure_exit_stack ?s3) = (r, s')"
    using call c cr none expired by (simp add: get_quickbooks_mcp_def Let_def)
  have st: "exit_stack (ensure_exit_stack ?s3) = exit_stack (ensure_exit_stack s)"
    by (simp add: ensure_exit_stack_Some s1)
  have o: "opens ?s3 = opens s" by (simp add: s1)
  show ?thesis
    using conn none st o
    by (auto simp: connect_quickbooks_raises [OF ensure_exit_stack_Some])
qed

text \<open>The global call reaches the open call exactly when the request-scoped cache of
  the calling context has no server for the tenant, the credential query does not raise
  and no backoff is active.\<close>

lemma global_open_raises:
  assumes miss: "request_cached s ctx tenant_id = None"
    and expired: "is_failure_expired s now tenant_id ''global''"
    and call: "get_global_mcp cfg ctx now (Inr y) (Some e) tenant_id s = (r, s')"
  shows "r = Inr None
     \<and> get_inner (failed_connections s') tenant_id ''global'' = Some now
     \<and> tenant_connections s' = tenant_connections s
     \<and> request_global_mcp s' = request_global_mcp s
     \<and> request_dicts s' = request_dicts s
     \<and> exit_stack s' = exit_stack (ensure_exit_stack s)
     \<and> (\<exists>h. opens s' = opens s @ [h])"
proof -
  let ?l = "get_tenant_lock tenant_id s"
  obtain cr s1 where c: "get_google_sheets_credentials (Inr y) now tenant_id ?l = (cr, s1)"
    by (cases "get_google_sheets_credentials (Inr y) now tenant_id ?l")
  have s1: "s1 = snd (get_google_sheets_credentials (Inr y) now tenant_id ?l)" using c by simp
  obtain sheets where cr: "cr = Inr sheets"
    using c get_google_sheets_credentials_no_raise(1) [of y now tenant_id ?l]
    by (cases cr) auto
  have e1: "is_failure_expired s1 now tenant_id ''global''"
    using expired by (simp add: s1)
  have conn: "connect_global cfg ctx now (Some e) tenant_id sheets (ensure_exit_stack s1) = (r, s')"
    using call c cr miss e1 by (simp add: get_global_mcp_def Let_def)
  have st: "exit_stack (ensure_exit_stack s1) = exit_stack (ensure_exit_stack s)"
    by (simp add: ensure_exit_stack_Some s1)
  show ?thesis
    using conn st
    by (auto simp: connect_global_raises [OF ensure_exit_stack_Some] s1)
qed

text \<open>
  C1. Take a call that reaches the open call: for \<^verbatim>\<open>get_quickbooks_mcp\<close>, credentials
  are resolved and the connection is invalidated or absent with no backoff active; for
  \<^verbatim>\<open>get_global_mcp\<close>, the request-scoped cache of the context has no server for the
  tenant, the credential query returns and no backoff is active. Whatever exception \<open>e\<close>
  entering the session raises (a timeout, a cancellation or any other exception), the
  call does not raise: it returns \<^verbatim>\<open>None\<close>, the failure is recorded for the tenant
  and the connection type at the time of the call, and no server is registered: the
  QuickBooks entry of the registry is empty (for a global call the registry and the
  request-scoped cache are what they were), and the exit stack holds the sessions it held
  before. Exactly one open call was made.
\<close>

theorem open_exception_yields_none:
  "(fst (quickbooks_credentials qstore now tenant_id (get_tenant_lock tenant_id s))
        = Inr (Some creds)
      \<and> (token_changed s tenant_id (access_token creds)
          \<or> is_connection_stale s now tenant_id ''quickbooks''
          \<or> get_inner (tenant_connections s) tenant_id ''quickbooks'' = None
             \<and> is_failure_expired s now tenant_id ''quickbooks'')
      \<and> get_quickbooks_mcp cfg now qstore (Some e) tenant_id s = (rq, sq)
     \<longrightarrow> rq = Inr None
       \<and> get_inner (failed_connections sq) tenant_id ''quickbooks'' = Some now
       \<and> get_inner (tenant_connections sq) tenant_id ''quickbooks'' = None
       \<and> exit_stack sq = exit_stack (ensure_exit_stack s)
       \<and> (\<exists>h. opens sq = opens s @ [h]))
   \<and> (request_cached s ctx tenant_id = None
      \<and> is_failure_expired s now tenant_id ''global''
      \<and> get_global_mcp cfg ctx now (Inr y) (Some e) tenant_id s = (rg, sg)
     \<longrightarrow> rg = Inr None
       \<and> get_inner (failed_connections sg) tenant_id ''global'' = Some now
       \<and> tenant_connections sg = tenant_connections s
       \<and> request_global_mcp sg = request_global_mcp s
       \<and> request_dicts sg = request_dicts s
       \<and> exit_stack sg = exit_stack (ensure_exit_stack s)
       \<and> (\<exists>h. opens sg = opens s @ [h]))"
proof -
  have q: "rq = Inr None
       \<and> get_inner (failed_connections sq) tenant_id ''quickbooks'' = Some now
       \<and> get_inner (tenant_connections sq) tenant_id ''quickbooks'' = None
       \<and> exit_stack sq = exit_stack (ensure_exit_stack s)
       \<and> (\<exists>h. opens sq = opens s @ [h])"
    if "fst (quickbooks_credentials qstore now tenant_id (get_tenant_lock tenant_id s))
        = Inr (Some creds)
      \<and> (token_changed s tenant_id (access_token creds)
          \<or> is_connection_stale s now tenant_id ''quickbooks''
          \<or> get_inner (tenant_connections s) tenant_id ''quickbooks'' = None
             \<and> is_failure_expired s now tenant_id ''quickbooks'')
      \<and> get_quickbooks_mcp cfg now qstore (Some e) tenant_id s = (rq, sq)"
    using that quickbooks_open_raises [of qstore now tenant_id s creds cfg e rq sq] by blast
  have g: "rg = Inr None
       \<and> get_inner (failed_connections sg) tenant_id ''global'' = Some now
       \<and> tenant_connections sg = tenant_connections s
       \<and> request_global_mcp sg = request_global_mcp s
       \<and> request_dicts sg = request_dicts s
       \<and> exit_stack sg = exit_stack (ensure_exit_stack s)
       \<and> (\<exists>h. opens sg = opens s @ [h])"
    if "request_cached s ctx tenant_id = None
      \<and> is_failure_expired s now tenant_id ''global''
      \<and> get_global_mcp cfg ctx now (Inr y) (Some e) tenant_id s = (rg, sg)"
    using that global_open_raises [of s ctx tenant_id now cfg y e rg sg] by blast
  show ?thesis
    by (rule conjI [OF impI [OF q] impI [OF g]])
qed

text \<open>The witness: a first call for tenant \<open>t1\<close> on the fresh manager, with the session
  raising a timeout, a cancellation, and another exception.\<close>

theorem open_exception_yields_none_witness:
  "fst (quickbooks_credentials (Inr (Some demo_creds)) 5 ''t1'' (get_tenant_lock ''t1'' init))
     = Inr (Some demo_creds)
   \<and> is_connection_stale init 5 ''t1'' ''quickbooks''
   \<and> request_cached init 0 ''t1'' = None
   \<and> is_failure_expired init 5 ''t1'' ''global''
   \<and> fst (get_quickbooks_mcp demo_settings 5 (Inr (Some demo_creds)) (Some TimeoutError) ''t1'' init)
       = Inr None
   \<and> get_inner (failed_connections
         (snd (get_quickbooks_mcp demo_settings 5 (Inr (Some demo_creds)) (Some TimeoutError) ''t1'' init)))
         ''t1'' ''quickbooks'' = Some 5
   \<and> fst (get_global_mcp demo_settings 0 5 (Inr None) (Some TimeoutError) ''t1'' init) = Inr None
   \<and> get_inner (failed_connections
         (snd (get_global_mcp demo_settings 0 5 (Inr None) (Some TimeoutError) ''t1'' init)))
         ''t1'' ''global'' = Some 5
   \<and> fst (get_quickbooks_mcp demo_settings 5 (Inr (Some demo_creds)) (Some CancelledError) ''t1'' init)
       = Inr None
   \<and> get_inner (failed_connections
         (snd (get_quickbooks_mcp demo_settings 5 (Inr (Some demo_creds)) (Some CancelledError) ''t1'' init)))
         ''t1'' ''quickbooks'' = Some 5
   \<and> fst (get_global_mcp demo_settings 0 5 (Inr None) (Some CancelledError) ''t1'' init) = Inr None
   \<and> get_inner (failed_connections
         (snd (get_global_mcp demo_settings 0 5 (Inr None) (Some CancelledError) ''t1'' init)))
         ''t1'' ''global'' = Some 5
   \<and> fst (get_quickbooks_mcp demo_settings 5 (Inr (Some demo_creds)) (Some (Exception ''refused'')) ''t1'' init)
       = Inr None
   \<and> get_inner (failed_connections
         (snd (get_quickbooks_mcp demo_settings 5 (Inr (Some demo_creds)) (Some (Exception ''refused'')) ''t1'' init)))
         ''t1'' ''quickbooks'' = Some 5
   \<and> fst (get_global_mcp demo_settings 0 5 (Inr None) (Some (Exception ''refused'')) ''t1'' init) = Inr None
   \<and> get_inner (failed_connections
         (snd (get_global_mcp demo_settings 0 5 (Inr None) (Some (Exception ''refused'')) ''t1'' init)))
         ''t1'' ''global'' = Some 5"
proof -
  have cred: "fst (quickbooks_credentials (Inr (Some demo_creds)) 5 ''t1''
      (get_tenant_lock ''t1'' init)) = Inr (Some demo_creds)"
    by (simp add: quickbooks_credentials_def get_tenant_lock_def init_def Let_def)
  have stale: "is_connection_stale init 5 ''t1'' ''quickbooks''"
    by (simp add: is_connection_stale_def init_def)
  have miss: "request_cached init 0 ''t1'' = None" by simp
  have expired: "is_failure_expired init 5 ''t1'' ''global''"
    by (simp add: is_failure_expired_def init_def)
  have one: "fst (get_quickbooks_mcp demo_settings 5 (Inr (Some demo_creds)) (Some e) ''t1'' init)
          = Inr None
        \<and> get_inner (failed_connections
             (snd (get_quickbooks_mcp demo_settings 5 (Inr (Some demo_creds)) (Some e) ''t1'' init)))
             ''t1'' ''quickbooks'' = Some 5
        \<and> fst (get_global_mcp demo_settings 0 5 (Inr None) (Some e) ''t1'' init) = Inr None
        \<and> get_inner (failed_connections
             (snd (get_global_mcp demo_settings 0 5 (Inr None) (Some e) ''t1'' init)))
             ''t1'' ''global'' = Some 5" for e
    using cred stale miss expired
      open_exception_yields_none [where s = init and tenant_id = "''t1''" and now = 5
        and qstore = "Inr (Some demo_creds)" and creds = demo_creds and cfg = demo_settings
        and e = e and ctx = 0 and y = None
        and rq = "fst (get_quickbooks_mcp demo_settings 5 (Inr (Some demo_creds)) (Some e) ''t1'' init)"
        and sq = "snd (get_quickbooks_mcp demo_settings 5 (Inr (Some demo_creds)) (Some e) ''t1'' init)"
        and rg = "fst (get_global_mcp demo_settings 0 5 (Inr None) (Some e) ''t1'' init)"
        and sg = "snd (get_global_mcp demo_settings 0 5 (Inr None) (Some e) ''t1'' init)"]
    by simp
  show ?thesis
    using cred stale miss expired one [of TimeoutError] one [of CancelledError]
      one [of "Exception ''refused''"]
    by simp
qed

subsection \<open>The backoff after a failed open\<close>

text \<open>The global path honours the backoff: up to and including 30 seconds after a
  recorded failure no session is opened, after that one is.\<close>

lemma global_backoff_skips_open:
  assumes "request_cached s ctx tenant_id = None"
    and "get_inner (failed_connections s) tenant_id ''global'' = Some failed_at"
    and "now - failed_at \<le> failed_connection_ttl"
    and "get_global_mcp cfg ctx now (Inr sheets) outcome tenant_id s = (r, s')"
  shows "r = Inr None \<and> opens s' = opens s"
  using assms
  by (auto simp: get_global_mcp_def Let_def is_failure_expired_get
      dest!: pair_eqD split: prod.splits sum.splits option.splits if_splits)

lemma global_backoff_expires:
  assumes "request_cached s ctx tenant_id = None"
    and "get_inner (failed_connections s) tenant_id ''global'' = Some failed_at"
    and "now - failed_at > failed_connection_ttl"
    and "get_global_mcp cfg ctx now (Inr sheets) outcome tenant_id s = (r, s')"
  shows "length (opens s') = length (opens s) + 1"
  using assms
  by (auto simp: get_global_mcp_def Let_def is_failure_expired_get connect_global_def
        ensure_exit_stack_Some
      dest!: pair_eqD split: prod.splits sum.splits option.splits if_splits exc.splits)

text \<open>The QuickBooks path does not: a connection with no creation time counts as stale,
  and invalidating it removes the failure record before the record is looked at.\<close>

lemma refresh_quickbooks_forgets_failure:
  assumes "get_inner (connection_created_at s) tenant_id ''quickbooks'' = None"
  shows "is_failure_expired (refresh_quickbooks now tenant_id tok s) now tenant_id ''quickbooks''"
  using assms by (simp add: refresh_quickbooks_eq is_connection_stale_get is_failure_expired_get)

text \<open>
  C4. A QuickBooks open for tenant \<open>t1\<close> fails at time 0 and leaves the state
  \<open>failed_once\<close>, in which the failure is recorded and no server is registered. One
  second later, inside the 30-second window, the next call makes an open call again.
\<close>

theorem quickbooks_backoff_not_honoured:
  "get_quickbooks_mcp demo_settings 0 (Inr (Some demo_creds)) (Some TimeoutError) ''t1'' init
     = (Inr None, failed_once)
   \<and> get_inner (failed_connections failed_once) ''t1'' ''quickbooks'' = Some 0
   \<and> get_inner (tenant_connections failed_once) ''t1'' ''quickbooks'' = None
   \<and> 1000000 - 0 < failed_connection_ttl
   \<and> length (opens (snd (get_quickbooks_mcp demo_settings 1000000 (Inr (Some demo_creds))
          (Some TimeoutError) ''t1'' failed_once))) = length (opens failed_once) + 1"
proof -
  have a: "get_quickbooks_mcp demo_settings 0 (Inr (Some demo_creds)) (Some TimeoutError) ''t1'' init
     = (Inr None, failed_once)"
    by (simp add: run_defs init_def failed_once_def demo_server_def demo_settings_def demo_creds_def)
  have b: "length (opens (snd (get_quickbooks_mcp demo_settings 1000000 (Inr (Some demo_creds))
          (Some TimeoutError) ''t1'' failed_once))) = length (opens failed_once) + 1"
    by (simp add: run_defs init_def failed_once_def)
  show ?thesis using a b
    by (simp add: failed_once_def init_def get_inner_def failed_connection_ttl_def)
qed

subsection \<open>Reported connection errors\<close>

text \<open>A QuickBooks call that resolves credentials while the tenant's connection has no
  creation time opens a session, whatever the failure record says.\<close>

lemma quickbooks_opens_when_unregistered:
  assumes "fst (quickbooks_credentials store now tenant_id (get_tenant_lock tenant_id s))
             = Inr (Some creds)"
    and "get_inner (connection_created_at s) tenant_id ''quickbooks'' = None"
    and "get_quickbooks_mcp cfg now store outcome tenant_id s = (r, s')"
  shows "length (opens s') = length (opens s) + 1"
    and "outcome = None \<Longrightarrow>
           \<exists>h. r = Inr (Some h) \<and> obj_id h = objects s
             \<and> get_inner (tenant_connections s') tenant_id ''quickbooks'' = Some h"
  using assms
  by (auto simp: get_quickbooks_mcp_def Let_def refresh_quickbooks_eq is_connection_stale_get
        is_failure_expired_get connect_quickbooks_def ensure_exit_stack_Some
      dest!: pair_eqD split: prod.splits sum.splits option.splits if_splits exc.splits)

text \<open>
  C6, as the code has it. \<^verbatim>\<open>handle_connection_error\<close> removes the server of the
  tenant and connection type from the registry, together with its creation time, and it
  also removes the failure record of that pair. The entries of every other pair and the
  exit stack are left as they were (the session is not closed). The next QuickBooks call
  that resolves credentials opens a new session.
\<close>

theorem handle_connection_error_invalidates:
  assumes "s1 = handle_connection_error tenant_id connection_type error s"
  shows "get_inner (tenant_connections s1) tenant_id connection_type = None
    \<and> get_inner (connection_created_at s1) tenant_id connection_type = None
    \<and> get_inner (failed_connections s1) tenant_id connection_type = None
    \<and> (t \<noteq> tenant_id \<or> c \<noteq> connection_type \<longrightarrow>
          get_inner (tenant_connections s1) t c = get_inner (tenant_connections s) t c
        \<and> get_inner (connection_created_at s1) t c = get_inner (connection_created_at s) t c
        \<and> get_inner (failed_connections s1) t c = get_inner (failed_connections s) t c)
    \<and> exit_stack s1 = exit_stack s \<and> closed s1 = closed s
    \<and> (connection_type = ''quickbooks''
         \<and> fst (quickbooks_credentials store now tenant_id (get_tenant_lock tenant_id s1))
             = Inr (Some creds)
         \<and> get_quickbooks_mcp cfg now store outcome tenant_id s1 = (r, s2)
        \<longrightarrow> length (opens s2) = length (opens s1) + 1)"
proof -
  have inv: "s1 = invalidate_connection tenant_id connection_type s"
    using assms by (simp add: handle_connection_error_def)
  have rebuild: "length (opens s2) = length (opens s1) + 1"
    if "connection_type = ''quickbooks''"
      and "fst (quickbooks_credentials store now tenant_id (get_tenant_lock tenant_id s1))
             = Inr (Some creds)"
      and "get_quickbooks_mcp cfg now store outcome tenant_id s1 = (r, s2)"
  proof -
    have "get_inner (connection_created_at s1) tenant_id ''quickbooks'' = None"
      using that(1) by (simp add: inv)
    then show ?thesis
      using quickbooks_opens_when_unregistered(1) [OF that(2) _ that(3)] by simp
  qed
  show ?thesis using rebuild by (auto simp: inv)
qed

theorem handle_connection_error_invalidates_witness:
  "get_inner (tenant_connections connected) ''t1'' ''quickbooks'' = Some demo_server
   \<and> get_inner (tenant_connections
         (handle_connection_error ''t1'' ''quickbooks'' ClosedResourceError connected))
         ''t1'' ''quickbooks'' = None
   \<and> length (opens (snd (get_quickbooks_mcp demo_settings 60000000 (Inr (Some demo_creds)) None
         ''t1'' (handle_connection_error ''t1'' ''quickbooks'' ClosedResourceError connected))))
       = length (opens (handle_connection_error ''t1'' ''quickbooks'' ClosedResourceError connected)) + 1"
proof -
  let ?s1 = "handle_connection_error ''t1'' ''quickbooks'' ClosedResourceError connected"
  have a: "get_inner (tenant_connections connected) ''t1'' ''quickbooks'' = Some demo_server"
    by (simp add: connected_def get_inner_def)
  have b: "fst (quickbooks_credentials (Inr (Some demo_creds)) 60000000 ''t1''
             (get_tenant_lock ''t1'' ?s1)) = Inr (Some demo_creds)"
    by (simp add: run_defs handle_connection_error_def connected_def init_def)
  show ?thesis
    using a b handle_connection_error_invalidates [OF refl,
        where tenant_id = "''t1''" and connection_type = "''quickbooks''"
          and error = ClosedResourceError and s = connected
          and t = "''t2''" and c = "''global''"
          and store = "Inr (Some demo_creds)" and now = 60000000 and creds = demo_creds
          and cfg = demo_settings and outcome = None
          and r = "fst (get_quickbooks_mcp demo_settings 60000000 (Inr (Some demo_creds)) None ''t1'' ?s1)"
          and ?s2.0 = "snd (get_quickbooks_mcp demo_settings 60000000 (Inr (Some demo_creds)) None ''t1'' ?s1)"]
    by simp
qed

text \<open>
  C6, as the claim states it, fails: in \<open>failed_once\<close> the failure of tenant \<open>t1\<close>'s
  QuickBooks connection is recorded, and after the error is reported the record is gone.
\<close>

theorem handle_connection_error_clears_failure:
  "get_inner (failed_connections failed_once) ''t1'' ''quickbooks'' = Some 0
   \<and> get_inner (failed_connections
         (handle_connection_error ''t1'' ''quickbooks'' ClosedResourceError failed_once))
         ''t1'' ''quickbooks'' = None"
  by (simp add: handle_connection_error_def invalidate_connection_def pop_inner_def
      failed_once_def init_def get_inner_def)

subsection \<open>Shutdown\<close>

text \<open>
  C8, as the code has it. After \<^verbatim>\<open>cleanup\<close> the exit stack is gone and every session
  entered on it has been closed, whether or not closing raised; the connection registry,
  the token map and the lock table are empty. The creation times, the failure records,
  both credential caches and their timestamps, and the request cache are what they were.
\<close>

theorem cleanup_clears_connections_only:
  "exit_stack (cleanup aexit s) = None
   \<and> (exit_stack s = Some stack \<longrightarrow> closed (cleanup aexit s) = closed s @ rev stack)
   \<and> tenant_connections (cleanup aexit s) = Map.empty
   \<and> tenant_tokens (cleanup aexit s) = Map.empty
   \<and> locks (cleanup aexit s) = {}
   \<and> connection_created_at (cleanup aexit s) = connection_created_at s
   \<and> failed_connections (cleanup aexit s) = failed_connections s
   \<and> quickbooks_creds_cache (cleanup aexit s) = quickbooks_creds_cache s
   \<and> sheets_creds_cache (cleanup aexit s) = sheets_creds_cache s
   \<and> creds_cache_timestamps (cleanup aexit s) = creds_cache_timestamps s
   \<and> request_global_mcp (cleanup aexit s) = request_global_mcp s
   \<and> request_dicts (cleanup aexit s) = request_dicts s"
  by (simp add: cleanup_def Let_def split: option.splits)

theorem cleanup_clears_connections_only_witness:
  "exit_stack connected = Some [demo_server]
   \<and> closed (cleanup None connected) = [demo_server]
   \<and> tenant_connections (cleanup None connected) = Map.empty
   \<and> exit_stack (cleanup None connected) = None"
proof -
  have a: "exit_stack connected = Some [demo_server]" "closed connected = []"
    by (simp_all add: connected_def init_def)
  show ?thesis
    using a cleanup_clears_connections_only [of None connected "[demo_server]"] by simp
qed

text \<open>
  C8, as the claim states it, fails: after \<^verbatim>\<open>cleanup\<close> the creation time and the
  cached credentials of tenant \<open>t1\<close> are still there, and so is a recorded failure.
\<close>

theorem cleanup_keeps_other_registries:
  "get_inner (connection_created_at (cleanup None connected)) ''t1'' ''quickbooks'' = Some 0
   \<and> quickbooks_creds_cache (cleanup None connected) ''t1'' = Some (Some demo_creds)
   \<and> get_inner (creds_cache_timestamps (cleanup None connected)) ''t1'' ''quickbooks'' = Some 0
   \<and> get_inner (failed_connections (cleanup None failed_once)) ''t1'' ''quickbooks'' = Some 0"
  by (simp add: cleanup_def connected_def failed_once_def init_def get_inner_def)

subsection \<open>The credential caches\<close>

lemma quickbooks_credentials_hit:
  assumes "quickbooks_creds_cache s t = Some cached"
    and "\<not> is_creds_cache_stale s now t ''quickbooks''"
  shows "quickbooks_credentials store now t s = (Inr cached, s)"
  using assms by (simp add: quickbooks_credentials_def Let_def)

lemma quickbooks_credentials_miss:
  assumes "quickbooks_creds_cache s t = None \<or> is_creds_cache_stale s now t ''quickbooks''"
  shows "fst (quickbooks_credentials (Inr x) now t s) = Inr x"
    and "store_calls (snd (quickbooks_credentials (Inr x) now t s))
           = store_calls s @ [(''quickbooks'', t)]"
    and "quickbooks_creds_cache (snd (quickbooks_credentials (Inr x) now t s))
           = (case x of None \<Rightarrow> quickbooks_creds_cache s
              | Some c \<Rightarrow> (quickbooks_creds_cache s)(t \<mapsto> Some c))"
    and "creds_cache_timestamps (snd (quickbooks_credentials (Inr x) now t s))
           = (case x of None \<Rightarrow> creds_cache_timestamps s
              | Some c \<Rightarrow> set_inner (creds_cache_timestamps s) t ''quickbooks'' now)"
  using assms
  by (auto simp: quickbooks_credentials_def Let_def split: option.splits)

lemma get_google_sheets_credentials_hit:
  assumes "sheets_creds_cache s t = Some cached"
    and "\<not> is_creds_cache_stale s now t ''sheets''"
  shows "get_google_sheets_credentials store now t s = (Inr cached, s)"
  using assms by (simp add: get_google_sheets_credentials_def Let_def)

lemma get_google_sheets_credentials_miss:
  assumes "sheets_creds_cache s t = None \<or> is_creds_cache_stale s now t ''sheets''"
  shows "fst (get_google_sheets_credentials (Inr x) now t s) = Inr x"
    and "store_calls (snd (get_google_sheets_credentials (Inr x) now t s))
           = store_calls s @ [(''sheets'', t)]"
    and "sheets_creds_cache (snd (get_google_sheets_credentials (Inr x) now t s))
           = (sheets_creds_cache s)(t \<mapsto> x)"
    and "creds_cache_timestamps (snd (get_google_sheets_credentials (Inr x) now t s))
           = set_inner (creds_cache_timestamps s) t ''sheets'' now"
  using assms
  by (auto simp: get_google_sheets_credentials_def Let_def split: option.splits)

subsection \<open>No credentials\<close>

lemma global_opens_without_sheets:
  assumes "request_cached s ctx tenant_id = None"
    and "is_failure_expired s now tenant_id ''global''"
    and "sheets_creds_cache s tenant_id = None \<or> is_creds_cache_stale s now tenant_id ''sheets''"
    and "get_global_mcp cfg ctx now (Inr None) outcome tenant_id s = (r, s')"
  shows "\<exists>h. opens s' = opens s @ [h] \<and> headers h = global_headers tenant_id None
           \<and> (outcome = None \<longrightarrow> r = Inr (Some h))"
proof -
  let ?l = "get_tenant_lock tenant_id s"
  have miss: "sheets_creds_cache ?l tenant_id = None \<or> is_creds_cache_stale ?l now tenant_id ''sheets''"
    using assms(3) by simp
  obtain cr s1 where c: "get_google_sheets_credentials (Inr None) now tenant_id ?l = (cr, s1)"
    by (cases "get_google_sheets_credentials (Inr None) now tenant_id ?l")
  have cr: "cr = Inr None"
    using get_google_sheets_credentials_miss(1) [OF miss, of None] c by simp
  have s1: "s1 = snd (get_google_sheets_credentials (Inr None) now tenant_id ?l)"
    using c by simp
  have e: "is_failure_expired s1 now tenant_id ''global''"
    using assms(2) by (simp add: s1)
  have "connect_global cfg ctx now outcome tenant_id None (ensure_exit_stack s1) = (r, s')"
    using assms(1,4) c cr e by (simp add: get_global_mcp_def)
  then show ?thesis
    by (auto simp: connect_global_def ensure_exit_stack_Some s1 Let_def
        split: option.splits exc.splits)
qed

lemma quickbooks_none_from_store:
  assumes "quickbooks_creds_cache s tenant_id = None
            \<or> is_creds_cache_stale s now tenant_id ''quickbooks''"
    and "get_quickbooks_mcp cfg now (Inr None) outcome tenant_id s = (r, s')"
  shows "r = Inr None \<and> opens s' = opens s
           \<and> store_calls s' = store_calls s @ [(''quickbooks'', tenant_id)]"
proof -
  let ?l = "get_tenant_lock tenant_id s"
  have miss: "quickbooks_creds_cache ?l tenant_id = None
      \<or> is_creds_cache_stale ?l now tenant_id ''quickbooks''"
    using assms(1) by simp
  obtain cr s1 where c: "quickbooks_credentials (Inr None) now tenant_id ?l = (cr, s1)"
    by (cases "quickbooks_credentials (Inr None) now tenant_id ?l")
  have cr: "cr = Inr None"
    using quickbooks_credentials_miss(1) [OF miss, of None] c by simp
  have s1: "s1 = snd (quickbooks_credentials (Inr None) now tenant_id ?l)"
    using c by simp
  have "r = Inr None" "s' = s1"
    using assms(2) c cr by (simp_all add: get_quickbooks_mcp_def)
  then show ?thesis
    using quickbooks_credentials_miss(2) [OF miss, of None] by (simp add: s1)
qed

text \<open>
  C5, as the code has it. When the QuickBooks credential store is asked (the tenant has
  no cached entry, or a stale one) and returns \<^verbatim>\<open>None\<close>, \<^verbatim>\<open>get_quickbooks_mcp\<close>
  returns \<^verbatim>\<open>None\<close> and makes no open call. \<^verbatim>\<open>get_global_mcp\<close> needs no
  credentials: when the store has no Google Sheets connection for the tenant (and the
  request-scoped cache of the calling context has no server for it and no backoff is
  active), it makes one open call,
  with the three basic headers only, and returns the server if the session is entered.
\<close>

theorem no_credentials_none_for_quickbooks_only:
  "((quickbooks_creds_cache s tenant_id = None
       \<or> is_creds_cache_stale s now tenant_id ''quickbooks'')
      \<and> get_quickbooks_mcp cfg now (Inr None) outcome tenant_id s = (rq, sq)
     \<longrightarrow> rq = Inr None \<and> opens sq = opens s)
   \<and> (request_cached s ctx tenant_id = None
      \<and> is_failure_expired s now tenant_id ''global''
      \<and> (sheets_creds_cache s tenant_id = None
           \<or> is_creds_cache_stale s now tenant_id ''sheets'')
      \<and> get_global_mcp cfg ctx now (Inr None) outcome tenant_id s = (rg, sg)
     \<longrightarrow> (\<exists>h. opens sg = opens s @ [h] \<and> headers h = global_headers tenant_id None
            \<and> (outcome = None \<longrightarrow> rg = Inr (Some h))))"
  using quickbooks_none_from_store [of s tenant_id now cfg outcome rq sq]
    global_opens_without_sheets [of s ctx tenant_id now cfg outcome rg sg]
  by blast

theorem no_credentials_none_for_quickbooks_only_witness:
  "quickbooks_creds_cache init ''t1'' = None
   \<and> fst (get_quickbooks_mcp demo_settings 0 (Inr None) None ''t1'' init) = Inr None
   \<and> opens (snd (get_quickbooks_mcp demo_settings 0 (Inr None) None ''t1'' init)) = opens init
   \<and> request_cached init 0 ''t1'' = None
   \<and> is_failure_expired init 0 ''t1'' ''global''
   \<and> sheets_creds_cache init ''t1'' = None
   \<and> (\<exists>h. opens (snd (get_global_mcp demo_settings 0 0 (Inr None) None ''t1'' init)) = opens init @ [h]
         \<and> fst (get_global_mcp demo_settings 0 0 (Inr None) None ''t1'' init) = Inr (Some h))"
proof -
  have a: "quickbooks_creds_cache init ''t1'' = None"
    "is_failure_expired init 0 ''t1'' ''global''" "sheets_creds_cache init ''t1'' = None"
    by (simp_all add: init_def is_failure_expired_def)
  have b: "request_cached init 0 ''t1'' = None" by simp
  show ?thesis
    using a b no_credentials_none_for_quickbooks_only [where s = init and tenant_id = "''t1''"
        and now = 0 and cfg = demo_settings and outcome = None and ctx = 0
        and rq = "fst (get_quickbooks_mcp demo_settings 0 (Inr None) None ''t1'' init)"
        and sq = "snd (get_quickbooks_mcp demo_settings 0 (Inr None) None ''t1'' init)"
        and rg = "fst (get_global_mcp demo_settings 0 0 (Inr None) None ''t1'' init)"
        and sg = "snd (get_global_mcp demo_settings 0 0 (Inr None) None ''t1'' init)"]
    by auto
qed

text \<open>
  C5, as the claim states it, fails for the global connection: tenant \<open>t1\<close> has no
  Google Sheets connection, and the first call (in the context 0) opens a session and
  returns its server.
\<close>

theorem global_opens_without_credentials:
  "get_global_mcp demo_settings 0 0 (Inr None) None ''t1'' init
     = (Inr (Some global_server), global_connected)
   \<and> opens global_connected = [global_server]"
  by (simp add: run_defs init_def global_connected_def global_server_def demo_settings_def
      global_headers_def)

subsection \<open>Caching of credentials\<close>

text \<open>
  C7, as the code has it. A cached entry that is at most 5 minutes old is returned and
  nothing else happens: the store is not asked. When the tenant has no entry or a stale
  one, the store is asked once. The Google Sheets lookup then caches whatever the store
  returned, also \<^verbatim>\<open>None\<close>, with the time of the call. The QuickBooks lookup caches
  credentials with the time of the call, and leaves the cache and the timestamps as they
  were when the store returned \<^verbatim>\<open>None\<close>.
\<close>

theorem credential_lookup_caches:
  "(quickbooks_creds_cache s t = Some qcached
      \<and> get_inner (creds_cache_timestamps s) t ''quickbooks'' = Some cached_at
      \<and> now - cached_at \<le> creds_cache_ttl
     \<longrightarrow> quickbooks_credentials qstore now t s = (Inr qcached, s))
   \<and> (sheets_creds_cache s t = Some gcached
      \<and> get_inner (creds_cache_timestamps s) t ''sheets'' = Some cached_at
      \<and> now - cached_at \<le> creds_cache_ttl
     \<longrightarrow> get_google_sheets_credentials gstore now t s = (Inr gcached, s))
   \<and> (quickbooks_creds_cache s t = None \<or> is_creds_cache_stale s now t ''quickbooks''
     \<longrightarrow> fst (quickbooks_credentials (Inr x) now t s) = Inr x
       \<and> store_calls (snd (quickbooks_credentials (Inr x) now t s))
           = store_calls s @ [(''quickbooks'', t)]
       \<and> (case x of
             Some c \<Rightarrow>
               quickbooks_creds_cache (snd (quickbooks_credentials (Inr x) now t s)) t
                 = Some (Some c)
               \<and> get_inner (creds_cache_timestamps (snd (quickbooks_credentials (Inr x) now t s)))
                   t ''quickbooks'' = Some now
           | None \<Rightarrow>
               quickbooks_creds_cache (snd (quickbooks_credentials (Inr x) now t s))
                 = quickbooks_creds_cache s
               \<and> creds_cache_timestamps (snd (quickbooks_credentials (Inr x) now t s))
                   = creds_cache_timestamps s))
   \<and> (sheets_creds_cache s t = None \<or> is_creds_cache_stale s now t ''sheets''
     \<longrightarrow> fst (get_google_sheets_credentials (Inr y) now t s) = Inr y
       \<and> store_calls (snd (get_google_sheets_credentials (Inr y) now t s))
           = store_calls s @ [(''sheets'', t)]
       \<and> sheets_creds_cache (snd (get_google_sheets_credentials (Inr y) now t s)) t = Some y
       \<and> get_inner (creds_cache_timestamps (snd (get_google_sheets_credentials (Inr y) now t s)))
           t ''sheets'' = Some now)"
proof -
  have a: "quickbooks_credentials qstore now t s = (Inr qcached, s)"
    if "quickbooks_creds_cache s t = Some qcached"
      "get_inner (creds_cache_timestamps s) t ''quickbooks'' = Some cached_at"
      "now - cached_at \<le> creds_cache_ttl"
    using that by (intro quickbooks_credentials_hit) (simp_all add: is_creds_cache_stale_get)
  have b: "get_google_sheets_credentials gstore now t s = (Inr gcached, s)"
    if "sheets_creds_cache s t = Some gcached"
      "get_inner (creds_cache_timestamps s) t ''sheets'' = Some cached_at"
      "now - cached_at \<le> creds_cache_ttl"
    using that by (intro get_google_sheets_credentials_hit) (simp_all add: is_creds_cache_stale_get)
  show ?thesis
    using a b
    by (auto simp: quickbooks_credentials_miss get_google_sheets_credentials_miss
        split: option.splits)
qed

theorem credential_lookup_caches_witness:
  "quickbooks_credentials (Inr None) 300000000 ''t1'' connected = (Inr (Some demo_creds), connected)
   \<and> get_google_sheets_credentials (Inr None) 300000000 ''t1'' global_connected
       = (Inr None, global_connected)
   \<and> quickbooks_creds_cache (snd (quickbooks_credentials (Inr (Some demo_creds)) 7 ''t1'' init)) ''t1''
       = Some (Some demo_creds)
   \<and> sheets_creds_cache (snd (get_google_sheets_credentials (Inr None) 7 ''t1'' init)) ''t1''
       = Some None
   \<and> get_inner (creds_cache_timestamps (snd (get_google_sheets_credentials (Inr None) 7 ''t1'' init)))
       ''t1'' ''sheets'' = Some 7"
proof -
  have h1: "quickbooks_creds_cache connected ''t1'' = Some (Some demo_creds)"
    "get_inner (creds_cache_timestamps connected) ''t1'' ''quickbooks'' = Some 0"
    "300000000 - 0 \<le> creds_cache_ttl"
    by (simp_all add: connected_def init_def get_inner_def creds_cache_ttl_def)
  have h2: "sheets_creds_cache global_connected ''t1'' = Some None"
    "get_inner (creds_cache_timestamps global_connected) ''t1'' ''sheets'' = Some 0"
    by (simp_all add: global_connected_def init_def get_inner_def)
  have h3: "quickbooks_creds_cache init ''t1'' = None" "sheets_creds_cache init ''t1'' = None"
    by (simp_all add: init_def)
  show ?thesis
    using h1 h2 h3
      credential_lookup_caches [where s = connected and t = "''t1''" and now = 300000000
        and cached_at = 0 and qcached = "Some demo_creds" and qstore = "Inr None"]
      credential_lookup_caches [where s = global_connected and t = "''t1''" and now = 300000000
        and cached_at = 0 and gcached = None and gstore = "Inr None"]
      credential_lookup_caches [where s = init and t = "''t1''" and now = 7
        and x = "Some demo_creds" and y = None]
    by simp
qed

text \<open>
  C7, as the claim states it, fails for QuickBooks: the store is asked and returns
  \<^verbatim>\<open>None\<close>, and afterwards neither an entry nor a timestamp is cached for the tenant.
\<close>

theorem quickbooks_none_not_cached:
  "store_calls (snd (get_quickbooks_mcp demo_settings 0 (Inr None) None ''t1'' init))
     = [(''quickbooks'', ''t1'')]
   \<and> quickbooks_creds_cache (snd (get_quickbooks_mcp demo_settings 0 (Inr None) None ''t1'' init))
       ''t1'' = None
   \<and> get_inner (creds_cache_timestamps
         (snd (get_quickbooks_mcp demo_settings 0 (Inr None) None ''t1'' init)))
       ''t1'' ''quickbooks'' = None"
  by (simp add: run_defs init_def)

subsection \<open>Rebuilding and reusing a QuickBooks connection\<close>

text \<open>When the token has changed or the connection is stale, the call invalidates the
  connection and opens a session; the server it constructs is a new object.\<close>

lemma quickbooks_rebuilds:
  assumes cred: "fst (quickbooks_credentials store now tenant_id (get_tenant_lock tenant_id s))
             = Inr (Some creds)"
    and inval: "token_changed s tenant_id (access_token creds)
             \<or> is_connection_stale s now tenant_id ''quickbooks''"
    and call: "get_quickbooks_mcp cfg now store outcome tenant_id s = (r, s')"
  shows "\<exists>h. opens s' = opens s @ [h] \<and> obj_id h = objects s
           \<and> (case outcome of
                 None \<Rightarrow> r = Inr (Some h)
                   \<and> get_inner (tenant_connections s') tenant_id ''quickbooks'' = Some h
                   \<and> tenant_tokens s' tenant_id = Some (access_token creds)
                   \<and> get_inner (connection_created_at s') tenant_id ''quickbooks'' = Some now
               | Some e \<Rightarrow> r = Inr None
                   \<and> get_inner (tenant_connections s') tenant_id ''quickbooks'' = None)"
proof -
  let ?l = "get_tenant_lock tenant_id s"
  obtain cr s1 where c: "quickbooks_credentials store now tenant_id ?l = (cr, s1)"
    by (cases "quickbooks_credentials store now tenant_id ?l")
  have cr: "cr = Inr (Some creds)" using cred c by simp
  have s1: "s1 = snd (quickbooks_credentials store now tenant_id ?l)" using c by simp
  let ?s3 = "refresh_quickbooks now tenant_id (access_token creds) s1"
  have inv1: "token_changed s1 tenant_id (access_token creds)
             \<or> is_connection_stale s1 now tenant_id ''quickbooks''"
    using inval by (simp add: s1)
  then have s3: "?s3 = invalidate_connection tenant_id ''quickbooks'' s1"
    by (simp add: refresh_quickbooks_eq)
  have none: "get_inner (tenant_connections ?s3) tenant_id ''quickbooks'' = None"
    and expired: "is_failure_expired ?s3 now tenant_id ''quickbooks''"
    by (simp_all add: s3 is_failure_expired_get)
  have conn: "connect_quickbooks cfg now outcome tenant_id creds (ensure_exit_stack ?s3) = (r, s')"
    using call c cr none expired by (simp add: get_quickbooks_mcp_def Let_def)
  have o: "opens ?s3 = opens s" "objects ?s3 = objects s"
    by (simp_all add: s1)
  show ?thesis
    using conn none o
    by (auto simp: connect_quickbooks_def ensure_exit_stack_Some Let_def
        split: option.splits exc.splits)
qed



text \<open>
  C3, as the code has it. The tenant has a QuickBooks server \<open>h_old\<close> in the registry, an
  object constructed earlier, recorded with a token \<open>tok_old\<close> that is not the empty
  string. When the next call resolves credentials with a different access token, the old
  server is removed from the registry, exactly one open call is made, for a server that is
  another object than \<open>h_old\<close>, and that server is what the call returns and registers
  when its session is entered; the call never returns \<open>h_old\<close>.
\<close>

theorem token_change_rebuilds_connection:
  assumes reg: "get_inner (tenant_connections s) tenant_id ''quickbooks'' = Some h_old"
    and known: "obj_id h_old < objects s"
    and tok: "tenant_tokens s tenant_id = Some tok_old" "tok_old \<noteq> []"
    and cred: "fst (quickbooks_credentials store now tenant_id (get_tenant_lock tenant_id s))
             = Inr (Some creds)"
    and diff: "access_token creds \<noteq> tok_old"
    and call: "get_quickbooks_mcp cfg now store outcome tenant_id s = (r, s')"
  shows "\<exists>h. opens s' = opens s @ [h] \<and> h \<noteq> h_old
           \<and> get_inner (tenant_connections s') tenant_id ''quickbooks'' \<noteq> Some h_old
           \<and> r \<noteq> Inr (Some h_old)
           \<and> (outcome = None \<longrightarrow> r = Inr (Some h)
                \<and> get_inner (tenant_connections s') tenant_id ''quickbooks'' = Some h)"
proof -
  have changed: "token_changed s tenant_id (access_token creds)
             \<or> is_connection_stale s now tenant_id ''quickbooks''"
    using tok diff by (simp add: token_changed_def)
  from quickbooks_rebuilds [OF cred changed call]
  obtain h where h: "opens s' = opens s @ [h]" "obj_id h = objects s"
    "case outcome of
       None \<Rightarrow> r = Inr (Some h)
         \<and> get_inner (tenant_connections s') tenant_id ''quickbooks'' = Some h
         \<and> tenant_tokens s' tenant_id = Some (access_token creds)
         \<and> get_inner (connection_created_at s') tenant_id ''quickbooks'' = Some now
     | Some e \<Rightarrow> r = Inr None
         \<and> get_inner (tenant_connections s') tenant_id ''quickbooks'' = None"
    by blast
  have new: "h \<noteq> h_old" using h(2) known by auto
  show ?thesis
    using h(1,3) new by (cases outcome) auto
qed

theorem token_change_rebuilds_connection_witness:
  "get_inner (tenant_connections connected) ''t1'' ''quickbooks'' = Some demo_server
   \<and> tenant_tokens connected ''t1'' = Some ''token-1''
   \<and> (\<exists>h. opens (snd (get_quickbooks_mcp demo_settings 360000000
              (Inr (Some (demo_creds\<lparr>access_token := ''token-2''\<rparr>))) None ''t1'' connected))
            = opens connected @ [h]
         \<and> h \<noteq> demo_server
         \<and> fst (get_quickbooks_mcp demo_settings 360000000
              (Inr (Some (demo_creds\<lparr>access_token := ''token-2''\<rparr>))) None ''t1'' connected)
            = Inr (Some h))"
proof -
  let ?c = "demo_creds\<lparr>access_token := ''token-2''\<rparr>"
  let ?store = "Inr (Some ?c) :: exc + qb_creds option"
  have reg: "get_inner (tenant_connections connected) ''t1'' ''quickbooks'' = Some demo_server"
    and known: "obj_id demo_server < objects connected"
    and tok: "tenant_tokens connected ''t1'' = Some ''token-1''" "''token-1'' \<noteq> []"
    by (simp_all add: connected_def init_def get_inner_def demo_server_def)
  text \<open>The cached credentials are 6 minutes old, so the store is asked.\<close>
  have cred: "fst (quickbooks_credentials ?store 360000000 ''t1'' (get_tenant_lock ''t1'' connected))
      = Inr (Some ?c)"
    by (simp add: quickbooks_credentials_def get_tenant_lock_def connected_def init_def
        is_creds_cache_stale_get get_inner_def creds_cache_ttl_def Let_def)
  have diff: "access_token ?c \<noteq> ''token-1''" by simp
  show ?thesis
    using reg tok(1)
      token_change_rebuilds_connection [OF reg known tok cred diff,
        of demo_settings None
          "fst (get_quickbooks_mcp demo_settings 360000000 ?store None ''t1'' connected)"
          "snd (get_quickbooks_mcp demo_settings 360000000 ?store None ''t1'' connected)"]
    by auto
qed

text \<open>
  C3, as the claim states it, fails when the recorded token is the empty string, which
  the test \<^verbatim>\<open>cached_token and cached_token != current_token\<close> takes for no token.
  The connection of tenant \<open>t1\<close> was opened with such credentials; six minutes later the
  store returns \<open>demo_creds\<close>, whose token differs, and the call returns the old server
  and makes no open call.
\<close>

theorem empty_token_not_rebuilt:
  "get_quickbooks_mcp demo_settings 0 (Inr (Some empty_token_creds)) None ''t1'' init
     = (Inr (Some empty_token_server), connected_empty_token)
   \<and> get_inner (tenant_connections connected_empty_token) ''t1'' ''quickbooks''
       = Some empty_token_server
   \<and> tenant_tokens connected_empty_token ''t1'' = Some []
   \<and> fst (quickbooks_credentials (Inr (Some demo_creds)) 360000000 ''t1''
          (get_tenant_lock ''t1'' connected_empty_token)) = Inr (Some demo_creds)
   \<and> store_calls (snd (quickbooks_credentials (Inr (Some demo_creds)) 360000000 ''t1''
          (get_tenant_lock ''t1'' connected_empty_token)))
       = store_calls connected_empty_token @ [(''quickbooks'', ''t1'')]
   \<and> access_token demo_creds \<noteq> []
   \<and> fst (get_quickbooks_mcp demo_settings 360000000 (Inr (Some demo_creds)) None ''t1''
          connected_empty_token) = Inr (Some empty_token_server)
   \<and> opens (snd (get_quickbooks_mcp demo_settings 360000000 (Inr (Some demo_creds)) None ''t1''
          connected_empty_token)) = opens connected_empty_token"
proof -
  have a: "get_quickbooks_mcp demo_settings 0 (Inr (Some empty_token_creds)) None ''t1'' init
     = (Inr (Some empty_token_server), connected_empty_token)"
    by (simp add: run_defs init_def connected_empty_token_def empty_token_server_def
        empty_token_creds_def demo_settings_def)
  have b: "get_inner (tenant_connections connected_empty_token) ''t1'' ''quickbooks''
       = Some empty_token_server"
    "tenant_tokens connected_empty_token ''t1'' = Some []"
    "access_token demo_creds \<noteq> []"
    by (simp_all add: connected_empty_token_def init_def get_inner_def demo_creds_def)
  have c: "fst (quickbooks_credentials (Inr (Some demo_creds)) 360000000 ''t1''
          (get_tenant_lock ''t1'' connected_empty_token)) = Inr (Some demo_creds)"
    "store_calls (snd (quickbooks_credentials (Inr (Some demo_creds)) 360000000 ''t1''
          (get_tenant_lock ''t1'' connected_empty_token)))
       = store_calls connected_empty_token @ [(''quickbooks'', ''t1'')]"
    by (simp_all add: quickbooks_credentials_def get_tenant_lock_def connected_empty_token_def
        init_def is_creds_cache_stale_get get_inner_def creds_cache_ttl_def Let_def)
  have d: "fst (get_quickbooks_mcp demo_settings 360000000 (Inr (Some demo_creds)) None ''t1''
          connected_empty_token) = Inr (Some empty_token_server)"
    by (simp add: run_defs connected_empty_token_def init_def)
  have e: "opens (snd (get_quickbooks_mcp demo_settings 360000000 (Inr (Some demo_creds)) None
          ''t1'' connected_empty_token)) = opens connected_empty_token"
    by (simp add: run_defs connected_empty_token_def init_def)
  show ?thesis using a b c d e by simp
qed

subsection \<open>Reuse across two calls\<close>







text \<open>
  Two tasks created by \<^verbatim>\<open>asyncio.gather\<close> in a request whose context 0 has the
  variable unset run in the copies 1 and 2 of that context. The server that the call in
  context 1 caches is bound in context 1 only: the call in context 2 does not find it and
  opens a second session.
\<close>

lemma sibling_tasks_open_twice:
  "copy_context 0 2 (copy_context 0 1 init) = init
   \<and> get_global_mcp demo_settings 1 0 (Inr None) None ''t1'' init
       = (Inr (Some global_server), sibling_connected)
   \<and> request_cached sibling_connected 1 ''t1'' = Some global_server
   \<and> request_cached sibling_connected 2 ''t1'' = None
   \<and> fst (get_global_mcp demo_settings 2 0 (Inr None) None ''t1'' sibling_connected)
       = Inr (Some (global_server\<lparr>obj_id := 1\<rparr>))
   \<and> length (opens (snd (get_global_mcp demo_settings 2 0 (Inr None) None ''t1''
        sibling_connected))) = 2"
proof -
  have a: "copy_context 0 2 (copy_context 0 1 init) = init"
    by (simp add: copy_context_def init_def)
  have b: "get_global_mcp demo_settings 1 0 (Inr None) None ''t1'' init
       = (Inr (Some global_server), sibling_connected)"
    by (simp add: run_defs init_def sibling_connected_def global_connected_def
        global_server_def demo_settings_def global_headers_def)
  have c: "request_cached sibling_connected 1 ''t1'' = Some global_server"
    "request_cached sibling_connected 2 ''t1'' = None"
    by (simp_all add: request_cached_def request_global_mcp_get_def sibling_connected_def
        global_connected_def init_def)
  have d: "fst (get_global_mcp demo_settings 2 0 (Inr None) None ''t1'' sibling_connected)
       = Inr (Some (global_server\<lparr>obj_id := 1\<rparr>))"
    by (simp add: run_defs sibling_connected_def global_connected_def init_def
        global_server_def demo_settings_def global_headers_def)
  have e: "length (opens (snd (get_global_mcp demo_settings 2 0 (Inr None) None ''t1''
        sibling_connected))) = 2"
    by (simp add: run_defs sibling_connected_def global_connected_def init_def)
  show ?thesis using a b c d e by simp
qed

subsection \<open>Registered servers are existing objects\<close>

lemma registry_known_init: "registry_known init"
  by (simp add: registry_known_def init_def)

lemma registry_known_step:
  assumes "registry_known s"
    and "objects s \<le> objects s'"
    and "\<And>t c h. get_inner (tenant_connections s') t c = Some h \<Longrightarrow>
           get_inner (tenant_connections s) t c = Some h \<or> obj_id h < objects s'"
  shows "registry_known s'"
  unfolding registry_known_def
proof (intro allI impI)
  fix t c h
  assume "get_inner (tenant_connections s') t c = Some h"
  from assms(3) [OF this] show "obj_id h < objects s'"
  proof
    assume "get_inner (tenant_connections s) t c = Some h"
    then have "obj_id h < objects s" using assms(1) by (simp add: registry_known_def)
    then show ?thesis using assms(2) by simp
  qed simp
qed

lemma connect_quickbooks_registry:
  assumes "connect_quickbooks cfg now outcome tenant_id creds s = (r, s')"
  shows "objects s \<le> objects s'"
    and "get_inner (tenant_connections s') t c = Some h \<Longrightarrow>
           get_inner (tenant_connections s) t c = Some h \<or> obj_id h < objects s'"
  using assms
  by (auto simp: connect_quickbooks_def Let_def split: option.splits exc.splits if_splits)

lemma refresh_quickbooks_registry:
  "get_inner (tenant_connections (refresh_quickbooks now tenant_id tok s)) t c = Some h \<Longrightarrow>
     get_inner (tenant_connections s) t c = Some h"
  by (simp add: refresh_quickbooks_eq split: if_splits)

lemma get_quickbooks_mcp_registry_known:
  assumes inv: "registry_known s"
    and call: "get_quickbooks_mcp cfg now store outcome tenant_id s = (r, s')"
  shows "registry_known s'"
proof -
  let ?l = "get_tenant_lock tenant_id s"
  obtain cr s1 where c: "quickbooks_credentials store now tenant_id ?l = (cr, s1)"
    by (cases "quickbooks_credentials store now tenant_id ?l")
  have s1: "s1 = snd (quickbooks_credentials store now tenant_id ?l)" using c by simp
  have k1: "registry_known s1"
    using inv by (simp add: registry_known_def s1)
  show ?thesis
  proof (cases cr)
    case (Inl e)
    then have "s' = s1" using call c by (simp add: get_quickbooks_mcp_def)
    then show ?thesis using k1 by simp
  next
    case (Inr oc)
    show ?thesis
    proof (cases oc)
      case None
      then have "s' = s1" using call c Inr by (simp add: get_quickbooks_mcp_def)
      then show ?thesis using k1 by simp
    next
      case (Some creds)
      let ?s3 = "refresh_quickbooks now tenant_id (access_token creds) s1"
      have k3: "registry_known ?s3"
        using k1 by (rule registry_known_step) (auto dest: refresh_quickbooks_registry)
      have k4: "registry_known (ensure_exit_stack ?s3)"
        using k3 by (simp add: registry_known_def)
      have "s' = ?s3
          \<or> connect_quickbooks cfg now outcome tenant_id creds (ensure_exit_stack ?s3) = (r, s')"
        using call c Inr Some
        by (simp add: get_quickbooks_mcp_def Let_def split: option.splits if_splits)
      then show ?thesis
      proof
        assume "s' = ?s3" then show ?thesis using k3 by simp
      next
        assume conn: "connect_quickbooks cfg now outcome tenant_id creds (ensure_exit_stack ?s3)
          = (r, s')"
        show ?thesis
          using k4 connect_quickbooks_registry [OF conn]
          by (rule registry_known_step)
      qed
    qed
  qed
qed

lemma connect_global_registry:
  assumes "connect_global cfg ctx now outcome tenant_id sheets s = (r, s')"
  shows "tenant_connections s' = tenant_connections s \<and> objects s \<le> objects s'"
  using assms
  by (auto simp: connect_global_def Let_def split: option.splits exc.splits)

lemma get_global_mcp_registry_known:
  assumes inv: "registry_known s"
    and call: "get_global_mcp cfg ctx now store outcome tenant_id s = (r, s')"
  shows "registry_known s'"
proof (cases "request_cached s ctx tenant_id")
  case (Some g)
  then have "s' = s" using call by (simp add: get_global_mcp_def)
  then show ?thesis using inv by simp
next
  case None
  let ?l = "get_tenant_lock tenant_id s"
  obtain cr s1 where c: "get_google_sheets_credentials store now tenant_id ?l = (cr, s1)"
    by (cases "get_google_sheets_credentials store now tenant_id ?l")
  have s1: "s1 = snd (get_google_sheets_credentials store now tenant_id ?l)" using c by simp
  have k1: "registry_known s1"
    using inv by (simp add: registry_known_def s1)
  show ?thesis
  proof (cases cr)
    case (Inl e)
    then have "s' = s1" using call c None by (simp add: get_global_mcp_def Let_def)
    then show ?thesis using k1 by simp
  next
    case (Inr sheets)
    show ?thesis
    proof (cases "is_failure_expired s1 now tenant_id ''global''")
      case False
      then have "s' = s1" using call c None Inr by (simp add: get_global_mcp_def Let_def)
      then show ?thesis using k1 by simp
    next
      case True
      then have conn: "connect_global cfg ctx now outcome tenant_id sheets (ensure_exit_stack s1)
          = (r, s')"
        using call c None Inr by (simp add: get_global_mcp_def Let_def)
      have k2: "registry_known (ensure_exit_stack s1)"
        using k1 by (simp add: registry_known_def)
      from connect_global_registry [OF conn]
      have eq: "tenant_connections s' = tenant_connections (ensure_exit_stack s1)"
        and le: "objects (ensure_exit_stack s1) \<le> objects s'" by simp_all
      show ?thesis using k2 le by (rule registry_known_step) (simp add: eq)
    qed
  qed
qed

lemma handle_connection_error_registry_known:
  assumes "registry_known s"
  shows "registry_known (handle_connection_error tenant_id connection_type error s)"
  using assms
  by (rule registry_known_step) (simp_all add: handle_connection_error_def split: if_splits)

lemma invalidate_tenant_registry_known:
  assumes "registry_known s"
  shows "registry_known (invalidate_tenant tenant_id s)"
  using assms
  by (rule registry_known_step)
    (simp_all add: invalidate_tenant_def Let_def get_inner_def split: if_splits)

lemma cleanup_registry_known:
  assumes "registry_known s"
  shows "registry_known (cleanup aexit s)"
  using assms
  by (rule registry_known_step) (simp_all add: cleanup_def Let_def split: option.splits)

lemma clear_request_mcp_cache_registry_known:
  assumes "registry_known s"
  shows "registry_known (clear_request_mcp_cache ctx s)"
  using assms
  by (rule registry_known_step) simp_all

end
